theory Spec2Isabelle
  imports Main "HOL-Library.Word"
begin

section \<open>Errors, configuration and option functions\<close>

text \<open>
  Go error values. \<open>errors_New\<close> is \<^verbatim>\<open>errors.New(msg)\<close>, \<open>errors_Wrap\<close> is a
  non-nil error wrapped with a message (\<^verbatim>\<open>errors.Wrap(err, msg)\<close> and
  \<^verbatim>\<open>fmt.Errorf("msg: %w", err)\<close>), \<open>fmt_Errorf\<close> is \<^verbatim>\<open>fmt.Errorf(format, args...)\<close>
  with the \<^verbatim>\<open>%v\<close> arguments kept as they are passed, and \<open>Foreign\<close> is an error
  produced outside the consumer packages (the broker client, a decoder, an option).
  A Go \<^verbatim>\<open>error\<close> that may be nil is an \<open>error option\<close>.
\<close>

datatype error =
    errors_New string
  | errors_Wrap error string
  | fmt_Errorf string "fmt_arg list"
  | Foreign string
and fmt_arg = ArgStr string | ArgErr error

text \<open>
  Modelled from the spec: \<^verbatim>\<open>errors.Wrap\<close> of the repository's own errors package is
  not among the sources. The spec says that Close "returns the wrapped error of the
  underlying client-close operation, if any": a nil error stays nil.
\<close>

definition Wrap :: "error option \<Rightarrow> string \<Rightarrow> error option" where
  "Wrap err msg = (case err of None \<Rightarrow> None | Some e \<Rightarrow> Some (errors_Wrap e msg))"

text \<open>A call either returns or panics (a nil dereference, a negative channel size).\<close>

datatype 'a outcome = Panic string | Return 'a

text \<open>
  \<^verbatim>\<open>kafka.ConsumerConfig\<close>. The decoder hook is nil until an option sets it. The
  field \<open>SaramaConfig\<close> exists in the newer group package only; the other two
  packages keep the client configuration in the consumer's \<^verbatim>\<open>saramaCnf\<close> and leave
  this field out (\<open>None\<close> here).
\<close>

record ('d, 'sc) ConsumerConfig =
  Brokers :: "string list"
  Buffer :: int
  DecoderFunc :: "'d option"
  SaramaConfig :: "'sc option"

text \<open>
  \<^verbatim>\<open>kafka.OptionFunc\<close>: a mutator of its target \<open>'c\<close> that may fail. The Go function
  mutates in place and returns an error; every caller drops the target on an error,
  so the model returns either the error or the mutated target. \<open>opt_name\<close> is the
  name \<^verbatim>\<open>runtime.FuncForPC\<close> reports for the function.
\<close>

record 'c OptionFunc =
  opt_name :: string
  opt_run :: "'c \<Rightarrow> error + 'c"

section \<open>Group consumer: factory (async/kafka/group/group.go)\<close>

record ('d, 'sc, 'cg) consumer =
  topic :: string
  group :: string
  traceTag :: "string \<times> string option"
  cnl :: bool
  cg :: "'cg option"
  consumerCnf :: "('d, 'sc) ConsumerConfig"
  saramaCnf :: "'sc"

record ('d, 'sc, 'cg) Factory =
  f_name :: string
  f_group :: string
  f_topic :: string
  f_brokers :: "string list"
  f_oo :: "('d, 'sc, 'cg) consumer OptionFunc list"

definition New ::
  "string \<Rightarrow> string \<Rightarrow> string \<Rightarrow> string list \<Rightarrow> ('d, 'sc, 'cg) consumer OptionFunc list
   \<Rightarrow> error + ('d, 'sc, 'cg) Factory" where
  "New name' group' topic' brokers' oo =
     (if name' = [] then Inl (errors_New ''name is required'')
      else if group' = [] then Inl (errors_New ''group is required'')
      else if length brokers' = 0 then Inl (errors_New ''provide at least one broker'')
      else if topic' = [] then Inl (errors_New ''topic is required'')
      else Inr \<lparr>f_name = name', f_group = group', f_topic = topic',
                f_brokers = brokers', f_oo = oo\<rparr>)"

text \<open>
  The loop over \<^verbatim>\<open>f.oo\<close> in Create. The first component of the result lists the
  names of the options that were called, in call order; the second is the error
  returned at the first failure (wrapped by \<open>wrap_err\<close>, which gets the failing
  option), or the target after all options ran.
\<close>

fun apply_options ::
  "('c OptionFunc \<Rightarrow> error \<Rightarrow> error) \<Rightarrow> 'c OptionFunc list \<Rightarrow> 'c \<Rightarrow> string list \<times> (error + 'c)" where
  "apply_options wrap_err [] c = ([], Inr c)"
| "apply_options wrap_err (o' # os) c =
     (case opt_run o' c of
        Inl err \<Rightarrow> ([opt_name o'], Inl (wrap_err o' err))
      | Inr c' \<Rightarrow> (case apply_options wrap_err os c' of (called, r) \<Rightarrow> (opt_name o' # called, r)))"

definition option_error :: "'c OptionFunc \<Rightarrow> error \<Rightarrow> error" where
  "option_error o' err =
     fmt_Errorf ''Could not apply OptionFunc '%v' to consumer : %v'' [ArgStr (opt_name o'), ArgErr err]"

text \<open>
  \<open>SaramaConfig\<close> is \<^verbatim>\<open>kafka.SaramaConfig\<close>, which is not among the sources: it is a
  parameter. \<open>Create_calls\<close> is Create together with the names of the options it
  called.
\<close>

definition new_consumer :: "('d, 'sc, 'cg) Factory \<Rightarrow> 'sc \<Rightarrow> ('d, 'sc, 'cg) consumer" where
  "new_consumer f config =
     (let cc = \<lparr>Brokers = f_brokers f, Buffer = 0, DecoderFunc = None, SaramaConfig = None\<rparr>
      in \<lparr>topic = f_topic f, group = f_group f, traceTag = (''group'', Some (f_group f)),
          cnl = False, cg = None, consumerCnf = cc, saramaCnf = config\<rparr>)"

definition Create_calls ::
  "(string \<Rightarrow> error + 'sc) \<Rightarrow> ('d, 'sc, 'cg) Factory
   \<Rightarrow> string list \<times> (error + ('d, 'sc, 'cg) consumer)" where
  "Create_calls SaramaConfig' f =
     (case SaramaConfig' (f_name f) of
        Inl err \<Rightarrow> ([], Inl err)
      | Inr config \<Rightarrow> apply_options option_error (f_oo f) (new_consumer f config))"

definition Create ::
  "(string \<Rightarrow> error + 'sc) \<Rightarrow> ('d, 'sc, 'cg) Factory \<Rightarrow> error + ('d, 'sc, 'cg) consumer" where
  "Create SaramaConfig' f = snd (Create_calls SaramaConfig' f)"

section \<open>Group consumer, newer package: factory (src/unnamed/part_000)\<close>

record ('d, 'sc, 'cg) consumer2 =
  topic2 :: string
  group2 :: string
  traceTag2 :: "string \<times> string option"
  cnl2 :: bool
  cg2 :: "'cg option"
  config2 :: "('d, 'sc) ConsumerConfig"

record ('d, 'sc) Factory2 =
  f2_name :: string
  f2_group :: string
  f2_topic :: string
  f2_brokers :: "string list"
  f2_oo :: "('d, 'sc) ConsumerConfig OptionFunc list"

definition New2 ::
  "string \<Rightarrow> string \<Rightarrow> string \<Rightarrow> string list \<Rightarrow> ('d, 'sc) ConsumerConfig OptionFunc list
   \<Rightarrow> error + ('d, 'sc) Factory2" where
  "New2 name' group' topic' brokers' oo =
     (if name' = [] then Inl (errors_New ''name is required'')
      else if group' = [] then Inl (errors_New ''group is required'')
      else if length brokers' = 0 then Inl (errors_New ''provide at least one broker'')
      else if topic' = [] then Inl (errors_New ''topic is required'')
      else Inr \<lparr>f2_name = name', f2_group = group', f2_topic = topic',
                f2_brokers = brokers', f2_oo = oo\<rparr>)"

definition option_error2 :: "'c OptionFunc \<Rightarrow> error \<Rightarrow> error" where
  "option_error2 o' err = errors_Wrap err ''could not apply OptionFunc to consumer ''"

definition new_config2 :: "('d, 'sc) Factory2 \<Rightarrow> 'sc \<Rightarrow> ('d, 'sc) ConsumerConfig" where
  "new_config2 f config =
     \<lparr>Brokers = f2_brokers f, Buffer = 0, DecoderFunc = None, SaramaConfig = Some config\<rparr>"

definition Create2_calls ::
  "(string \<Rightarrow> error + 'sc) \<Rightarrow> ('d, 'sc) Factory2
   \<Rightarrow> string list \<times> (error + ('d, 'sc, 'cg) consumer2)" where
  "Create2_calls DefaultSaramaConfig f =
     (case DefaultSaramaConfig (f2_name f) of
        Inl err \<Rightarrow> ([], Inl err)
      | Inr config \<Rightarrow>
          (case apply_options option_error2 (f2_oo f) (new_config2 f config) of
             (called, Inl err) \<Rightarrow> (called, Inl err)
           | (called, Inr cc') \<Rightarrow>
               (called, Inr \<lparr>topic2 = f2_topic f, group2 = f2_group f,
                             traceTag2 = (''group'', Some (f2_group f)),
                             cnl2 = False, cg2 = None, config2 = cc'\<rparr>)))"

definition Create2 ::
  "(string \<Rightarrow> error + 'sc) \<Rightarrow> ('d, 'sc) Factory2 \<Rightarrow> error + ('d, 'sc, 'cg) consumer2" where
  "Create2 DefaultSaramaConfig f = snd (Create2_calls DefaultSaramaConfig f)"

section \<open>Simple consumer: factory (src/unnamed/part_001)\<close>

record ('d, 'sc, 'ms) simple_consumer =
  s_topic :: string
  s_traceTag :: "string \<times> string option"
  s_cnl :: bool
  s_ms :: "'ms option"
  s_consumerCnf :: "('d, 'sc) ConsumerConfig"
  s_saramaCnf :: "'sc"

record ('d, 'sc, 'ms) simple_Factory =
  sf_name :: string
  sf_topic :: string
  sf_brokers :: "string list"
  sf_oo :: "('d, 'sc, 'ms) simple_consumer OptionFunc list"

definition simple_New ::
  "string \<Rightarrow> string \<Rightarrow> string list \<Rightarrow> ('d, 'sc, 'ms) simple_consumer OptionFunc list
   \<Rightarrow> error + ('d, 'sc, 'ms) simple_Factory" where
  "simple_New name' topic' brokers' oo =
     (if name' = [] then Inl (errors_New ''name is required'')
      else if length brokers' = 0 then Inl (errors_New ''provide at least one broker'')
      else if topic' = [] then Inl (errors_New ''topic is required'')
      else Inr \<lparr>sf_name = name', sf_topic = topic', sf_brokers = brokers', sf_oo = oo\<rparr>)"

definition simple_new_consumer ::
  "('d, 'sc, 'ms) simple_Factory \<Rightarrow> 'sc \<Rightarrow> ('d, 'sc, 'ms) simple_consumer" where
  "simple_new_consumer f config =
     (let cc = \<lparr>Brokers = sf_brokers f, Buffer = 1000, DecoderFunc = None, SaramaConfig = None\<rparr>
      in \<lparr>s_topic = sf_topic f, s_traceTag = ([], None), s_cnl = False, s_ms = None,
          s_consumerCnf = cc, s_saramaCnf = config\<rparr>)"

definition simple_Create_calls ::
  "(string \<Rightarrow> error + 'sc) \<Rightarrow> ('d, 'sc, 'ms) simple_Factory
   \<Rightarrow> string list \<times> (error + ('d, 'sc, 'ms) simple_consumer)" where
  "simple_Create_calls SaramaConfig' f =
     (case SaramaConfig' (sf_name f) of
        Inl err \<Rightarrow> ([], Inl err)
      | Inr config \<Rightarrow>
          apply_options (\<lambda>o' err. err) (sf_oo f) (simple_new_consumer f config))"

definition simple_Create ::
  "(string \<Rightarrow> error + 'sc) \<Rightarrow> ('d, 'sc, 'ms) simple_Factory
   \<Rightarrow> error + ('d, 'sc, 'ms) simple_consumer" where
  "simple_Create SaramaConfig' f = snd (simple_Create_calls SaramaConfig' f)"

section \<open>Observable effects\<close>

text \<open>
  \<^verbatim>\<open>sarama.ConsumerMessage\<close>, with the fields the consumers read: the partition is
  an \<^verbatim>\<open>int32\<close>, the offset an \<^verbatim>\<open>int64\<close>.
\<close>

record ConsumerMessage =
  Topic :: string
  Partition :: "32 word"
  Offset :: "64 word"
  Value :: string

text \<open>
  What a consumer does to its collaborators, in the order it does it: a gauge update
  (key and value), a call of \<^verbatim>\<open>kafka.ClaimMessage\<close> on a record, a completed send
  on the message queue or on the error queue, a \<^verbatim>\<open>Close\<close> call on the broker client
  the consumer owns (the coordination client in group mode, the direct client in
  simple mode), and a \<^verbatim>\<open>Close\<close> call on the partition reader of pump \<open>i\<close>.
\<close>

datatype 'm event =
    GaugeSet "string \<times> string \<times> 32 word" "64 word"
  | ClaimCall ConsumerMessage
  | SendMsg 'm
  | SendErr error
  | ClientClose
  | ReaderClose nat

fun sent_msgs :: "'m event list \<Rightarrow> 'm list" where
  "sent_msgs [] = []"
| "sent_msgs (SendMsg m # es) = m # sent_msgs es"
| "sent_msgs (_ # es) = sent_msgs es"

fun sent_errs :: "'m event list \<Rightarrow> error list" where
  "sent_errs [] = []"
| "sent_errs (SendErr e # es) = e # sent_errs es"
| "sent_errs (_ # es) = sent_errs es"

fun claim_calls :: "'m event list \<Rightarrow> ConsumerMessage list" where
  "claim_calls [] = []"
| "claim_calls (ClaimCall r # es) = r # claim_calls es"
| "claim_calls (_ # es) = claim_calls es"

text \<open>
  Modelled from the spec: \<^verbatim>\<open>kafka.TopicPartitionOffsetDiffGaugeSet\<close> is called by
  both consumers and is not among the sources. The spec describes "a gauge keyed by
  {group, topic, partition} updated with highWaterMark - currentOffset"; the
  subtraction is the one of \<^verbatim>\<open>int64\<close>.
\<close>

definition TopicPartitionOffsetDiffGaugeSet ::
  "string \<Rightarrow> string \<Rightarrow> 32 word \<Rightarrow> 64 word \<Rightarrow> 64 word \<Rightarrow> 'm event" where
  "TopicPartitionOffsetDiffGaugeSet group' topic' partition' high offset =
     GaugeSet (group', topic', partition') (high - offset)"

text \<open>
  A channel made by \<^verbatim>\<open>make(chan T, n)\<close> is known by its capacity; what is sent on
  it is in the trace of events. \<^verbatim>\<open>make\<close> panics on a negative size.
\<close>

record chan =
  cap :: int

definition make_chan :: "int \<Rightarrow> chan outcome" where
  "make_chan n = (if n < 0 then Panic ''makechan: size out of range'' else Return \<lparr>cap = n\<rparr>)"

text \<open>A goroutine has not been started, is at a point of its body, or has returned.\<close>

datatype 'pc task = NotStarted | Running 'pc | Returned

section \<open>Group consumer: claim handler\<close>

text \<open>
  The loop of \<^verbatim>\<open>handler.ConsumeClaim\<close>, the same in both group packages. The claim
  is the list of records its channel yields, each paired with the high-water mark
  the claim reports when that record is handled. \<open>ClaimMessage'\<close> is
  \<^verbatim>\<open>kafka.ClaimMessage\<close> (not among the sources) applied to the session's context
  and the session; it gets the decoder hook and the record. The result is the trace
  of the call, in which every send on \<^verbatim>\<open>h.messages\<close> has completed, and the error
  returned.
\<close>

fun ConsumeClaim_loop ::
  "string \<Rightarrow> 'd option \<Rightarrow> ('d option \<Rightarrow> ConsumerMessage \<Rightarrow> error + 'm)
   \<Rightarrow> (ConsumerMessage \<times> 64 word) list \<Rightarrow> 'm event list \<times> error option" where
  "ConsumeClaim_loop grp dec ClaimMessage' [] = ([], None)"
| "ConsumeClaim_loop grp dec ClaimMessage' ((msg, hwm) # rest) =
     (let g = TopicPartitionOffsetDiffGaugeSet grp (Topic msg) (Partition msg) hwm (Offset msg)
      in case ClaimMessage' dec msg of
           Inl err \<Rightarrow> ([g, ClaimCall msg], Some err)
         | Inr m \<Rightarrow>
             (case ConsumeClaim_loop grp dec ClaimMessage' rest of
                (es, r) \<Rightarrow> (g # ClaimCall msg # SendMsg m # es, r)))"

definition ConsumeClaim ::
  "('d, 'sc, 'cg) consumer \<Rightarrow> ('d option \<Rightarrow> ConsumerMessage \<Rightarrow> error + 'm)
   \<Rightarrow> (ConsumerMessage \<times> 64 word) list \<Rightarrow> 'm event list \<times> error option" where
  "ConsumeClaim c ClaimMessage' claim =
     ConsumeClaim_loop (group c) (DecoderFunc (consumerCnf c)) ClaimMessage' claim"

definition ConsumeClaim2 ::
  "('d, 'sc, 'cg) consumer2 \<Rightarrow> ('d option \<Rightarrow> ConsumerMessage \<Rightarrow> error + 'm)
   \<Rightarrow> (ConsumerMessage \<times> 64 word) list \<Rightarrow> 'm event list \<times> error option" where
  "ConsumeClaim2 c ClaimMessage' claim =
     ConsumeClaim_loop (group2 c) (DecoderFunc (config2 c)) ClaimMessage' claim"

section \<open>Group consumer: Consume, Close and the two background tasks\<close>

text \<open>
  The state the group consumer and its goroutines share: the consumer struct, whether
  the token derived in Consume is cancelled, the two queues, the client handle passed
  to the goroutines, the positions of the watchdog and of the session loop, and the
  trace of effects so far.
\<close>

datatype watchdog_pc = WdSelect | WdSendErr error

datatype session_pc = SlConsume | SlSendErr error

record ('c, 'cg, 'm) group_world =
  gw_c :: 'c
  gw_cancelled :: bool
  gw_chMsg :: "chan option"
  gw_chErr :: "chan option"
  gw_client :: "'cg option"
  gw_watchdog :: "watchdog_pc task"
  gw_session :: "session_pc task"
  gw_trace :: "'m event list"

definition created :: "'c \<Rightarrow> ('c, 'cg, 'm) group_world" where
  "created c = \<lparr>gw_c = c, gw_cancelled = False, gw_chMsg = None, gw_chErr = None,
                gw_client = None, gw_watchdog = NotStarted, gw_session = NotStarted,
                gw_trace = []\<rparr>"

text \<open>
  \<^verbatim>\<open>consumer.Close\<close> of group.go. \<open>r\<close> is what \<^verbatim>\<open>Close\<close> of the coordination client
  returns in this call. \<^verbatim>\<open>c.cg\<close> is an interface value: calling a method on it
  while it is nil panics.
\<close>

definition Close ::
  "error option \<Rightarrow> (('d, 'sc, 'cg) consumer, 'cg, 'm) group_world
   \<Rightarrow> (error option \<times> (('d, 'sc, 'cg) consumer, 'cg, 'm) group_world) outcome" where
  "Close r w =
     (let w1 = (if cnl (gw_c w) then w\<lparr>gw_cancelled := True\<rparr> else w)
      in case cg (gw_c w1) of
           None \<Rightarrow> Panic ''invalid memory address or nil pointer dereference''
         | Some h \<Rightarrow>
             Return (Wrap r ''failed to close consumer'',
                     w1\<lparr>gw_trace := gw_trace w1 @ [ClientClose]\<rparr>))"

text \<open>\<^verbatim>\<open>consumer.Close\<close> of the newer group package (src/unnamed/part_000).\<close>

definition Close2 ::
  "error option \<Rightarrow> (('d, 'sc, 'cg) consumer2, 'cg, 'm) group_world
   \<Rightarrow> (error option \<times> (('d, 'sc, 'cg) consumer2, 'cg, 'm) group_world) outcome" where
  "Close2 r w =
     (let w1 = (if cnl2 (gw_c w) then w\<lparr>gw_cancelled := True\<rparr> else w)
      in case cg2 (gw_c w1) of
           None \<Rightarrow> Panic ''invalid memory address or nil pointer dereference''
         | Some h \<Rightarrow>
             (let w2 = w1\<lparr>gw_trace := gw_trace w1 @ [ClientClose]\<rparr>
              in case r of
                   Some err \<Rightarrow> Return (Some (errors_Wrap err ''failed to close consumer''), w2)
                 | None \<Rightarrow> Return (None, w2)))"

text \<open>
  \<^verbatim>\<open>consumer.Consume\<close> with \<^verbatim>\<open>consumeWithGroup\<close> of group.go, on a consumer on which
  Consume has not run before. \<open>NewConsumerGroup\<close> is the client library's
  constructor. The result is the triple Consume returns (message queue, error queue,
  error), with nil queues as \<open>None\<close>. The parent token is taken to be live: the
  token derived from it starts uncancelled, and Close is what cancels it.
\<close>

definition Consume ::
  "(string list \<Rightarrow> string \<Rightarrow> 'sc \<Rightarrow> error + 'cg)
   \<Rightarrow> (('d, 'sc, 'cg) consumer, 'cg, 'm) group_world
   \<Rightarrow> ((chan option \<times> chan option \<times> error option)
        \<times> (('d, 'sc, 'cg) consumer, 'cg, 'm) group_world) outcome" where
  "Consume NewConsumerGroup w =
     (let c = (gw_c w)\<lparr>cnl := True\<rparr>;
          w1 = w\<lparr>gw_c := c, gw_cancelled := False\<rparr>
      in case NewConsumerGroup (Brokers (consumerCnf c)) (group c) (saramaCnf c) of
           Inl err \<Rightarrow> Return ((None, None, Some (errors_Wrap err ''failed to create consumer'')), w1)
         | Inr h \<Rightarrow>
             (case make_chan (Buffer (consumerCnf c)) of
                Panic p \<Rightarrow> Panic p
              | Return chMsg \<Rightarrow>
                  (case make_chan (Buffer (consumerCnf c)) of
                     Panic p \<Rightarrow> Panic p
                   | Return chErr \<Rightarrow>
                       Return ((Some chMsg, Some chErr, None),
                               w1\<lparr>gw_c := c\<lparr>cg := Some h\<rparr>,
                                  gw_chMsg := Some chMsg, gw_chErr := Some chErr,
                                  gw_client := Some h,
                                  gw_watchdog := Running WdSelect,
                                  gw_session := Running SlConsume\<rparr>))))"

definition closeConsumer :: "'cg option \<Rightarrow> 'm event list \<Rightarrow> 'm event list" where
  "closeConsumer cns tr = (case cns of None \<Rightarrow> tr | Some h \<Rightarrow> tr @ [ClientClose])"

text \<open>
  One step of one background task. The watchdog is at its \<^verbatim>\<open>select\<close> or at its send
  on the error queue; the session loop is at its call of the client's
  \<^verbatim>\<open>Consume\<close> or at its send on the error queue. An action names the task and what
  it observes: the token is done, the client's error channel delivers \<open>e\<close>, the
  pending send completes, the client's \<^verbatim>\<open>Consume\<close> returns \<open>r\<close>. A step that is
  not enabled in the state is \<open>None\<close>.
\<close>

datatype group_action =
    WdCtxDone
  | WdError error
  | WdSend
  | SlConsumeReturns "error option"
  | SlSend

fun group_step ::
  "group_action \<Rightarrow> ('c, 'cg, 'm) group_world \<Rightarrow> ('c, 'cg, 'm) group_world option" where
  "group_step WdCtxDone w =
     (if gw_watchdog w = Running WdSelect \<and> gw_cancelled w
      then Some (w\<lparr>gw_trace := closeConsumer (gw_client w) (gw_trace w), gw_watchdog := Returned\<rparr>)
      else None)"
| "group_step (WdError e) w =
     (if gw_watchdog w = Running WdSelect
      then Some (w\<lparr>gw_trace := closeConsumer (gw_client w) (gw_trace w),
                   gw_watchdog := Running (WdSendErr e)\<rparr>)
      else None)"
| "group_step WdSend w =
     (case gw_watchdog w of
        Running (WdSendErr e) \<Rightarrow>
          Some (w\<lparr>gw_trace := gw_trace w @ [SendErr e], gw_watchdog := Returned\<rparr>)
      | _ \<Rightarrow> None)"
| "group_step (SlConsumeReturns r) w =
     (if gw_session w = Running SlConsume
      then (case r of
              None \<Rightarrow> Some w
            | Some err \<Rightarrow> Some (w\<lparr>gw_session := Running (SlSendErr err)\<rparr>))
      else None)"
| "group_step SlSend w =
     (case gw_session w of
        Running (SlSendErr err) \<Rightarrow>
          Some (w\<lparr>gw_trace := gw_trace w @ [SendErr err], gw_session := Running SlConsume\<rparr>)
      | _ \<Rightarrow> None)"

fun group_run ::
  "group_action list \<Rightarrow> ('c, 'cg, 'm) group_world \<Rightarrow> ('c, 'cg, 'm) group_world option" where
  "group_run [] w = Some w"
| "group_run (a # as) w = (case group_step a w of None \<Rightarrow> None | Some w' \<Rightarrow> group_run as w')"


section \<open>Simple consumer: Consume, Close, the partition pumps and the decode tasks\<close>

datatype pump_pc = PSelect | PSendErr error

datatype 'm decode_pc = DClaim ConsumerMessage | DSendErr error | DSendMsg 'm

record 'pc pump =
  reader :: 'pc
  pump_task :: "pump_pc task"

record ('c, 'pc, 'm) simple_world =
  sw_c :: 'c
  sw_cancelled :: bool
  sw_chMsg :: "chan option"
  sw_chErr :: "chan option"
  sw_pumps :: "'pc pump list"
  sw_decodes :: "'m decode_pc task list"
  sw_trace :: "'m event list"

definition simple_created :: "'c \<Rightarrow> ('c, 'pc, 'm) simple_world" where
  "simple_created c = \<lparr>sw_c = c, sw_cancelled = False, sw_chMsg = None, sw_chErr = None,
                       sw_pumps = [], sw_decodes = [], sw_trace = []\<rparr>"

text \<open>\<^verbatim>\<open>consumer.Close\<close> of the simple package: it cancels the token and returns nil.\<close>

definition simple_Close ::
  "(('d, 'sc, 'ms) simple_consumer, 'pc, 'm) simple_world
   \<Rightarrow> error option \<times> (('d, 'sc, 'ms) simple_consumer, 'pc, 'm) simple_world" where
  "simple_Close w = (None, if s_cnl (sw_c w) then w\<lparr>sw_cancelled := True\<rparr> else w)"

text \<open>
  The loop of \<^verbatim>\<open>consumer.partitions\<close> that opens one reader per partition.
  \<open>ConsumePartition\<close> is the client's method; it reads the initial offset from the
  client configuration.
\<close>

fun open_readers ::
  "('ms \<Rightarrow> string \<Rightarrow> 32 word \<Rightarrow> 'sc \<Rightarrow> error + 'pc) \<Rightarrow> 'ms \<Rightarrow> string \<Rightarrow> 'sc \<Rightarrow> 32 word list
   \<Rightarrow> error + 'pc list" where
  "open_readers ConsumePartition ms' t cnf [] = Inr []"
| "open_readers ConsumePartition ms' t cnf (p # ps) =
     (case ConsumePartition ms' t p cnf of
        Inl err \<Rightarrow> Inl (errors_Wrap err ''failed to get partition consumer'')
      | Inr pc \<Rightarrow>
          (case open_readers ConsumePartition ms' t cnf ps of
             Inl err \<Rightarrow> Inl err
           | Inr pcs \<Rightarrow> Inr (pc # pcs)))"

definition partitions ::
  "(string list \<Rightarrow> 'sc \<Rightarrow> error + 'ms) \<Rightarrow> ('ms \<Rightarrow> string \<Rightarrow> error + 32 word list)
   \<Rightarrow> ('ms \<Rightarrow> string \<Rightarrow> 32 word \<Rightarrow> 'sc \<Rightarrow> error + 'pc)
   \<Rightarrow> ('d, 'sc, 'ms) simple_consumer \<Rightarrow> ('d, 'sc, 'ms) simple_consumer \<times> (error + 'pc list)" where
  "partitions NewConsumer Partitions ConsumePartition c =
     (case NewConsumer (Brokers (s_consumerCnf c)) (s_saramaCnf c) of
        Inl err \<Rightarrow> (c, Inl (errors_Wrap err ''failed to create consumer''))
      | Inr ms' \<Rightarrow>
          (let c' = c\<lparr>s_ms := Some ms'\<rparr>
           in case Partitions ms' (s_topic c') of
                Inl err \<Rightarrow> (c', Inl (errors_Wrap err ''failed to get partitions''))
              | Inr ps \<Rightarrow> (c', open_readers ConsumePartition ms' (s_topic c') (s_saramaCnf c') ps)))"

text \<open>
  \<^verbatim>\<open>consumer.Consume\<close> with \<^verbatim>\<open>consume\<close> of the simple package, on a consumer on
  which Consume has not run before. One pump is started per reader, at its
  \<^verbatim>\<open>select\<close>. The parent token is taken to be live, as in group mode.
\<close>

definition simple_Consume ::
  "(string list \<Rightarrow> 'sc \<Rightarrow> error + 'ms) \<Rightarrow> ('ms \<Rightarrow> string \<Rightarrow> error + 32 word list)
   \<Rightarrow> ('ms \<Rightarrow> string \<Rightarrow> 32 word \<Rightarrow> 'sc \<Rightarrow> error + 'pc)
   \<Rightarrow> (('d, 'sc, 'ms) simple_consumer, 'pc, 'm) simple_world
   \<Rightarrow> ((chan option \<times> chan option \<times> error option)
        \<times> (('d, 'sc, 'ms) simple_consumer, 'pc, 'm) simple_world) outcome" where
  "simple_Consume NewConsumer Partitions ConsumePartition w =
     (let c = (sw_c w)\<lparr>s_cnl := True\<rparr>;
          w1 = w\<lparr>sw_c := c, sw_cancelled := False\<rparr>
      in case make_chan (Buffer (s_consumerCnf c)) of
           Panic p \<Rightarrow> Panic p
         | Return chMsg \<Rightarrow>
             (case make_chan (Buffer (s_consumerCnf c)) of
                Panic p \<Rightarrow> Panic p
              | Return chErr \<Rightarrow>
                  (case partitions NewConsumer Partitions ConsumePartition c of
                     (c', Inl err) \<Rightarrow>
                       Return ((None, None, Some (errors_Wrap err ''failed to get partitions'')),
                               w1\<lparr>sw_c := c'\<rparr>)
                   | (c', Inr pcs) \<Rightarrow>
                       (if length pcs = 0
                        then Return ((None, None, Some (errors_New ''got 0 partitions'')),
                                     w1\<lparr>sw_c := c'\<rparr>)
                        else Return ((Some chMsg, Some chErr, None),
                                     w1\<lparr>sw_c := c', sw_chMsg := Some chMsg, sw_chErr := Some chErr,
                                        sw_pumps := sw_pumps w1
                                          @ map (\<lambda>pc. \<lparr>reader = pc, pump_task = Running PSelect\<rparr>) pcs\<rparr>)))))"

text \<open>
  One step of one task of the simple consumer. Pump \<open>i\<close> is at its \<^verbatim>\<open>select\<close> or at
  its send on the error queue; it observes the token done, an error \<open>e\<close> of its
  reader, or a record \<open>m\<close> of its reader (with the high-water mark \<open>hwm\<close> the reader
  reports then), for which it sets the gauge and starts a decode task. Decode task
  \<open>j\<close> calls \<^verbatim>\<open>kafka.ClaimMessage\<close> and then sends the message or the error.
\<close>

datatype simple_action =
    PumpCtxDone nat
  | PumpError nat error
  | PumpSend nat
  | PumpMessage nat ConsumerMessage "64 word"
  | DecodeRun nat
  | DecodeSend nat

definition set_pump :: "nat \<Rightarrow> pump_pc task \<Rightarrow> 'pc pump list \<Rightarrow> 'pc pump list" where
  "set_pump i t ps = ps[i := (ps ! i)\<lparr>pump_task := t\<rparr>]"

definition pump_at :: "('c, 'pc, 'm) simple_world \<Rightarrow> nat \<Rightarrow> pump_pc task option" where
  "pump_at w i = (if i < length (sw_pumps w) then Some (pump_task (sw_pumps w ! i)) else None)"

definition decode_at :: "('c, 'pc, 'm) simple_world \<Rightarrow> nat \<Rightarrow> 'm decode_pc task option" where
  "decode_at w j = (if j < length (sw_decodes w) then Some (sw_decodes w ! j) else None)"

fun simple_step ::
  "('d option \<Rightarrow> ConsumerMessage \<Rightarrow> error + 'm) \<Rightarrow> simple_action
   \<Rightarrow> (('d, 'sc, 'ms) simple_consumer, 'pc, 'm) simple_world
   \<Rightarrow> (('d, 'sc, 'ms) simple_consumer, 'pc, 'm) simple_world option" where
  "simple_step ClaimMessage' (PumpCtxDone i) w =
     (if pump_at w i = Some (Running PSelect) \<and> sw_cancelled w
      then Some (w\<lparr>sw_trace := sw_trace w @ [ReaderClose i],
                   sw_pumps := set_pump i Returned (sw_pumps w)\<rparr>)
      else None)"
| "simple_step ClaimMessage' (PumpError i e) w =
     (if pump_at w i = Some (Running PSelect)
      then Some (w\<lparr>sw_trace := sw_trace w @ [ReaderClose i],
                   sw_pumps := set_pump i (Running (PSendErr e)) (sw_pumps w)\<rparr>)
      else None)"
| "simple_step ClaimMessage' (PumpSend i) w =
     (case pump_at w i of
        Some (Running (PSendErr e)) \<Rightarrow>
          Some (w\<lparr>sw_trace := sw_trace w @ [SendErr e],
                  sw_pumps := set_pump i Returned (sw_pumps w)\<rparr>)
      | _ \<Rightarrow> None)"
| "simple_step ClaimMessage' (PumpMessage i m hwm) w =
     (if pump_at w i = Some (Running PSelect)
      then Some (w\<lparr>sw_trace := sw_trace w
                     @ [TopicPartitionOffsetDiffGaugeSet [] (Topic m) (Partition m) hwm (Offset m)],
                   sw_decodes := sw_decodes w @ [Running (DClaim m)]\<rparr>)
      else None)"
| "simple_step ClaimMessage' (DecodeRun j) w =
     (case decode_at w j of
        Some (Running (DClaim m)) \<Rightarrow>
          (case ClaimMessage' (DecoderFunc (s_consumerCnf (sw_c w))) m of
             Inl err \<Rightarrow>
               Some (w\<lparr>sw_trace := sw_trace w @ [ClaimCall m],
                       sw_decodes := (sw_decodes w)[j := Running (DSendErr err)]\<rparr>)
           | Inr msg \<Rightarrow>
               Some (w\<lparr>sw_trace := sw_trace w @ [ClaimCall m],
                       sw_decodes := (sw_decodes w)[j := Running (DSendMsg msg)]\<rparr>))
      | _ \<Rightarrow> None)"
| "simple_step ClaimMessage' (DecodeSend j) w =
     (case decode_at w j of
        Some (Running (DSendErr err)) \<Rightarrow>
          Some (w\<lparr>sw_trace := sw_trace w @ [SendErr err],
                  sw_decodes := (sw_decodes w)[j := Returned]\<rparr>)
      | Some (Running (DSendMsg msg)) \<Rightarrow>
          Some (w\<lparr>sw_trace := sw_trace w @ [SendMsg msg],
                  sw_decodes := (sw_decodes w)[j := Returned]\<rparr>)
      | _ \<Rightarrow> None)"

fun simple_run ::
  "('d option \<Rightarrow> ConsumerMessage \<Rightarrow> error + 'm) \<Rightarrow> simple_action list
   \<Rightarrow> (('d, 'sc, 'ms) simple_consumer, 'pc, 'm) simple_world
   \<Rightarrow> (('d, 'sc, 'ms) simple_consumer, 'pc, 'm) simple_world option" where
  "simple_run ClaimMessage' [] w = Some w"
| "simple_run ClaimMessage' (a # as) w =
     (case simple_step ClaimMessage' a w of
        None \<Rightarrow> None
      | Some w' \<Rightarrow> simple_run ClaimMessage' as w')"

section \<open>Vocabulary of the claims and example values\<close>

text \<open>
  An error wraps \<open>inner\<close> when it is built around it by \<^verbatim>\<open>errors.Wrap\<close> or carries
  it as an argument of \<^verbatim>\<open>fmt.Errorf\<close>; it identifies an option when it carries the
  option's function name.
\<close>

definition wraps :: "error \<Rightarrow> error \<Rightarrow> bool" where
  "wraps err inner =
     (case err of
        errors_Wrap e _ \<Rightarrow> e = inner
      | fmt_Errorf _ args \<Rightarrow> ArgErr inner \<in> set args
      | _ \<Rightarrow> False)"

definition identifies :: "error \<Rightarrow> string \<Rightarrow> bool" where
  "identifies err n = (case err of fmt_Errorf _ args \<Rightarrow> ArgStr n \<in> set args | _ \<Rightarrow> False)"

text \<open>
  The states a list of options goes through when each option succeeds: \<open>cs ! k\<close> is
  the target option \<open>k\<close> is applied to and \<open>cs ! Suc k\<close> the target it leaves, so
  that \<open>cs ! 0\<close> is the target before the first option and the last state the target
  after the last one.
\<close>

definition option_chain :: "'c OptionFunc list \<Rightarrow> 'c list \<Rightarrow> bool" where
  "option_chain os cs =
     (length cs = Suc (length os)
      \<and> list_all (\<lambda>k. opt_run (os ! k) (cs ! k) = Inr (cs ! Suc k)) [0..<length os])"

text \<open>
  Example values: options that succeed or fail, one factory per package with a failing
  second option, consumers as Create builds them, records of one partition, a
  \<^verbatim>\<open>ClaimMessage\<close> whose decoder rejects the payload \<open>''bad''\<close>, and consumers on
  which Consume has returned.
\<close>

definition opt_ok :: "string \<Rightarrow> 'c OptionFunc" where
  "opt_ok n = \<lparr>opt_name = n, opt_run = (\<lambda>c. Inr c)\<rparr>"
definition opt_bad :: "string \<Rightarrow> error \<Rightarrow> 'c OptionFunc" where
  "opt_bad n e = \<lparr>opt_name = n, opt_run = (\<lambda>c. Inl e)\<rparr>"

definition ex_oo :: "'c OptionFunc list" where
  "ex_oo = [opt_ok ''first'', opt_bad ''second'' (Foreign ''boom''), opt_ok ''third'']"

definition ex_Factory :: "(unit, unit, unit) Factory" where
  "ex_Factory = \<lparr>f_name = ''svc'', f_group = ''grp'', f_topic = ''orders'',
                  f_brokers = [''b:9092''], f_oo = ex_oo\<rparr>"

definition ex_Factory2 :: "(unit, unit) Factory2" where
  "ex_Factory2 = \<lparr>f2_name = ''svc'', f2_group = ''grp'', f2_topic = ''orders'',
                   f2_brokers = [''b:9092''], f2_oo = ex_oo\<rparr>"

definition ex_simple_Factory :: "(unit, unit, unit) simple_Factory" where
  "ex_simple_Factory = \<lparr>sf_name = ''svc'', sf_topic = ''orders'',
                         sf_brokers = [''b:9092''], sf_oo = ex_oo\<rparr>"

definition ex_consumer :: "(unit, unit, unit) consumer" where
  "ex_consumer = new_consumer ex_Factory ()"

definition ex_consumer2 :: "(unit, unit, unit) consumer2" where
  "ex_consumer2 = \<lparr>topic2 = ''orders'', group2 = ''grp'', traceTag2 = (''group'', Some ''grp''),
      cnl2 = False, cg2 = None, config2 = new_config2 ex_Factory2 ()\<rparr>"

definition ex_simple_consumer :: "(unit, unit, unit) simple_consumer" where
  "ex_simple_consumer = simple_new_consumer ex_simple_Factory ()"

definition ex_record :: "nat \<Rightarrow> string \<Rightarrow> ConsumerMessage" where
  "ex_record k v = \<lparr>Topic = ''orders'', Partition = 0, Offset = of_nat k, Value = v\<rparr>"

definition ex_ClaimMessage :: "unit option \<Rightarrow> ConsumerMessage \<Rightarrow> error + string" where
  "ex_ClaimMessage d r =
     (if Value r = ''bad'' then Inl (Foreign ''decode failed'') else Inr (Value r))"

definition ex_consuming :: "((unit, unit, unit) consumer, unit, string) group_world" where
  "ex_consuming =
     (case Consume (\<lambda>bs g cnf. Inr ()) (created ex_consumer) of
        Return (qs, w) \<Rightarrow> w
      | Panic p \<Rightarrow> created ex_consumer)"

definition ex_simple_consuming ::
  "((unit, unit, unit) simple_consumer, nat, string) simple_world" where
  "ex_simple_consuming =
     (case simple_Consume (\<lambda>bs cnf. Inr ()) (\<lambda>ms' t. Inr [0, 1]) (\<lambda>ms' t p cnf. Inr (unat p))
             (simple_created ex_simple_consumer) of
        Return (qs, w) \<Rightarrow> w
      | Panic p \<Rightarrow> simple_created ex_simple_consumer)"

definition ex_closed :: "((unit, unit, unit) consumer, unit, string) group_world" where
  "ex_closed = (case Close None ex_consuming of Return (r, w) \<Rightarrow> w | Panic p \<Rightarrow> ex_consuming)"

definition ex_after_close :: "group_action list" where
  "ex_after_close = [WdCtxDone, SlConsumeReturns (Some (Foreign ''consumer group closed'')),
                     SlSend, SlConsumeReturns (Some (Foreign ''consumer group closed''))]"

definition ex_claim :: "(ConsumerMessage \<times> 64 word) list" where
  "ex_claim = [(ex_record 0 ''a'', 3), (ex_record 1 ''b'', 3), (ex_record 2 ''c'', 7)]"


definition ex_simple_closed ::
  "((unit, unit, unit) simple_consumer, nat, string) simple_world" where
  "ex_simple_closed = snd (simple_Close ex_simple_consuming)"

definition ex_simple_stopped ::
  "((unit, unit, unit) simple_consumer, nat, string) simple_world" where
  "ex_simple_stopped =
     \<lparr>sw_c = ex_simple_consumer\<lparr>s_cnl := True, s_ms := Some ()\<rparr>, sw_cancelled = True,
      sw_chMsg = Some \<lparr>cap = 1000\<rparr>, sw_chErr = Some \<lparr>cap = 1000\<rparr>,
      sw_pumps = [\<lparr>reader = 0, pump_task = Returned\<rparr>, \<lparr>reader = 1, pump_task = Returned\<rparr>],
      sw_decodes = [], sw_trace = [ReaderClose 0, ReaderClose 1]\<rparr>"

definition ex_set_Buffer :: "int \<Rightarrow> ('d, 'sc, 'cg) consumer OptionFunc" where
  "ex_set_Buffer n =
     \<lparr>opt_name = ''Buffer'',
      opt_run = (\<lambda>c. Inr (c\<lparr>consumerCnf := (consumerCnf c)\<lparr>Buffer := n\<rparr>\<rparr>))\<rparr>"

definition ex_double_Buffer :: "('d, 'sc, 'cg) consumer OptionFunc" where
  "ex_double_Buffer =
     \<lparr>opt_name = ''Double'',
      opt_run = (\<lambda>c. Inr (c\<lparr>consumerCnf := (consumerCnf c)\<lparr>Buffer := 2 * Buffer (consumerCnf c)\<rparr>\<rparr>))\<rparr>"

definition ex_with_Buffer :: "int \<Rightarrow> (unit, unit, unit) consumer" where
  "ex_with_Buffer n = ex_consumer\<lparr>consumerCnf := (consumerCnf ex_consumer)\<lparr>Buffer := n\<rparr>\<rparr>"


section \<open>Lemmas about the loops\<close>

lemma apply_options_all_called:
  "apply_options wr os c = (ns, Inr c') \<Longrightarrow> ns = map opt_name os"
  by (induction os arbitrary: c ns) (auto split: sum.splits prod.splits)

lemma apply_options_first_failure:
  "apply_options wr pre c = (ns, Inr c1) \<Longrightarrow> opt_run o1 c1 = Inl e \<Longrightarrow>
   apply_options wr (pre @ o1 # post) c = (map opt_name pre @ [opt_name o1], Inl (wr o1 e))"
  by (induction pre arbitrary: c ns) (auto split: sum.splits prod.splits)

lemma apply_options_invariant:
  "\<forall>o'\<in>set os. \<forall>c c'. opt_run o' c = Inr c' \<longrightarrow> P c' = P c \<Longrightarrow>
   apply_options wr os c = (ns, Inr c') \<Longrightarrow> P c' = P c"
proof (induction os arbitrary: c ns)
  case Nil
  then show ?case by simp
next
  case (Cons o' os)
  from Cons.prems(2) obtain c1 ns1 where
    r: "opt_run o' c = Inr c1" and rest: "apply_options wr os c1 = (ns1, Inr c')"
    by (auto split: sum.splits prod.splits)
  from Cons.prems(1) r have "P c1 = P c" by simp
  moreover from Cons.IH [OF _ rest] Cons.prems(1) have "P c' = P c1" by simp
  ultimately show ?case by simp
qed

lemma Create_default_Buffer:
  "\<forall>o'\<in>set (f_oo f). \<forall>c c'. opt_run o' c = Inr c'
       \<longrightarrow> Buffer (consumerCnf c') = Buffer (consumerCnf c) \<Longrightarrow>
   Create SC f = Inr c \<Longrightarrow> Buffer (consumerCnf c) = 0"
proof -
  assume pres: "\<forall>o'\<in>set (f_oo f). \<forall>c c'. opt_run o' c = Inr c'
       \<longrightarrow> Buffer (consumerCnf c') = Buffer (consumerCnf c)"
    and cr: "Create SC f = Inr c"
  from cr obtain config ns where
    "apply_options option_error (f_oo f) (new_consumer f config) = (ns, Inr c)"
    by (auto simp: Create_def Create_calls_def split: sum.splits)
       (metis prod.collapse)
  from apply_options_invariant [where P = "\<lambda>c. Buffer (consumerCnf c)", OF pres this]
  show ?thesis by (simp add: new_consumer_def)
qed

lemma simple_Create_default_Buffer:
  "\<forall>o'\<in>set (sf_oo f). \<forall>c c'. opt_run o' c = Inr c'
       \<longrightarrow> Buffer (s_consumerCnf c') = Buffer (s_consumerCnf c) \<Longrightarrow>
   simple_Create SC f = Inr c \<Longrightarrow> Buffer (s_consumerCnf c) = 1000"
proof -
  assume pres: "\<forall>o'\<in>set (sf_oo f). \<forall>c c'. opt_run o' c = Inr c'
       \<longrightarrow> Buffer (s_consumerCnf c') = Buffer (s_consumerCnf c)"
    and cr: "simple_Create SC f = Inr c"
  from cr obtain config ns where
    "apply_options (\<lambda>o' err. err) (sf_oo f) (simple_new_consumer f config) = (ns, Inr c)"
    by (auto simp: simple_Create_def simple_Create_calls_def split: sum.splits)
       (metis prod.collapse)
  from apply_options_invariant [where P = "\<lambda>c. Buffer (s_consumerCnf c)", OF pres this]
  show ?thesis by (simp add: simple_new_consumer_def)
qed

lemma Consume_queue_capacity:
  "Consume NCG w = Return ((Some chMsg, Some chErr, err), w') \<Longrightarrow>
   cap chMsg = Buffer (consumerCnf (gw_c w)) \<and> cap chErr = Buffer (consumerCnf (gw_c w))
   \<and> 0 \<le> Buffer (consumerCnf (gw_c w)) \<and> err = None"
  by (auto simp: Consume_def Let_def make_chan_def split: sum.splits if_splits)

lemma simple_Consume_queue_capacity:
  "simple_Consume NC P CP w = Return ((Some chMsg, Some chErr, err), w') \<Longrightarrow>
   cap chMsg = Buffer (s_consumerCnf (sw_c w)) \<and> cap chErr = Buffer (s_consumerCnf (sw_c w))
   \<and> 0 \<le> Buffer (s_consumerCnf (sw_c w)) \<and> err = None"
  by (auto simp: simple_Consume_def Let_def make_chan_def split: sum.splits if_splits prod.splits)

lemma ConsumeClaim_loop_all_decoded:
  "list_all2 (\<lambda>rh x. CM dec (fst rh) = Inr x) claim ms \<Longrightarrow>
   ConsumeClaim_loop grp dec CM claim
     = (concat (map2 (\<lambda>rh x. [TopicPartitionOffsetDiffGaugeSet grp (Topic (fst rh))
                                 (Partition (fst rh)) (snd rh) (Offset (fst rh)),
                               ClaimCall (fst rh), SendMsg x]) claim ms), None)"
  by (induction claim ms rule: list_all2_induct) (auto simp: Let_def)

lemma sent_msgs_records:
  "length claim = length ms \<Longrightarrow>
   sent_msgs (concat (map2 (\<lambda>rh x. [TopicPartitionOffsetDiffGaugeSet grp (Topic (fst rh))
                                 (Partition (fst rh)) (snd rh) (Offset (fst rh)),
                               ClaimCall (fst rh), SendMsg x]) claim ms)) = ms"
  by (induction claim ms rule: list_induct2) (auto simp: TopicPartitionOffsetDiffGaugeSet_def)

lemma claim_calls_records:
  "length claim = length ms \<Longrightarrow>
   claim_calls (concat (map2 (\<lambda>rh x. [TopicPartitionOffsetDiffGaugeSet grp (Topic (fst rh))
                                 (Partition (fst rh)) (snd rh) (Offset (fst rh)),
                               ClaimCall (fst rh), SendMsg (x :: 'm)]) claim ms)) = map fst claim"
  by (induction claim ms rule: list_induct2) (auto simp: TopicPartitionOffsetDiffGaugeSet_def)


lemma ConsumeClaim_loop_next_record:
  "ConsumeClaim_loop grp dec CM pre = (es, None) \<Longrightarrow>
   \<exists>es'. fst (ConsumeClaim_loop grp dec CM (pre @ (r, h) # post))
     = es @ GaugeSet (grp, Topic r, Partition r) (h - Offset r) # ClaimCall r # es'"
  by (induction pre arbitrary: es)
     (auto simp: Let_def TopicPartitionOffsetDiffGaugeSet_def split: sum.splits prod.splits)

lemma group_step_session_running:
  "group_step a w = Some w' \<Longrightarrow> gw_session w = Running pc \<Longrightarrow> \<exists>pc'. gw_session w' = Running pc'"
  by (cases a) (auto split: if_splits task.splits watchdog_pc.splits session_pc.splits option.splits)

lemma ex_consuming_eq:
  "ex_consuming = \<lparr>gw_c = ex_consumer\<lparr>cnl := True, cg := Some ()\<rparr>, gw_cancelled = False,
      gw_chMsg = Some \<lparr>cap = 0\<rparr>, gw_chErr = Some \<lparr>cap = 0\<rparr>, gw_client = Some (),
      gw_watchdog = Running WdSelect, gw_session = Running SlConsume, gw_trace = []\<rparr>"
  by (simp add: ex_consuming_def Consume_def created_def ex_consumer_def new_consumer_def
        make_chan_def Let_def)

lemma ex_simple_consuming_eq:
  "ex_simple_consuming =
     \<lparr>sw_c = ex_simple_consumer\<lparr>s_cnl := True, s_ms := Some ()\<rparr>, sw_cancelled = False,
      sw_chMsg = Some \<lparr>cap = 1000\<rparr>, sw_chErr = Some \<lparr>cap = 1000\<rparr>,
      sw_pumps = [\<lparr>reader = 0, pump_task = Running PSelect\<rparr>,
                  \<lparr>reader = 1, pump_task = Running PSelect\<rparr>],
      sw_decodes = [], sw_trace = []\<rparr>"
  by (simp add: ex_simple_consuming_def simple_Consume_def simple_created_def partitions_def
        ex_simple_consumer_def simple_new_consumer_def make_chan_def Let_def)

lemma Create2_default_Buffer:
  "\<forall>o'\<in>set (f2_oo f). \<forall>c c'. opt_run o' c = Inr c' \<longrightarrow> Buffer c' = Buffer c \<Longrightarrow>
   Create2 SC f = Inr c \<Longrightarrow> Buffer (config2 c) = 0"
proof -
  assume pres: "\<forall>o'\<in>set (f2_oo f). \<forall>c c'. opt_run o' c = Inr c' \<longrightarrow> Buffer c' = Buffer c"
    and cr: "Create2 SC f = Inr c"
  from cr obtain config ns where
    "apply_options option_error2 (f2_oo f) (new_config2 f config) = (ns, Inr (config2 c))"
    by (auto simp: Create2_def Create2_calls_def split: sum.splits prod.splits)
  from apply_options_invariant [where P = Buffer, OF pres this]
  show ?thesis by (simp add: new_config2_def)
qed

lemma Consume_returns_queues:
  "NCG (Brokers (consumerCnf (gw_c w))) (group (gw_c w)) (saramaCnf (gw_c w)) = Inr h \<Longrightarrow>
   0 \<le> Buffer (consumerCnf (gw_c w)) \<Longrightarrow>
   \<exists>w'. Consume NCG w
          = Return ((Some \<lparr>cap = Buffer (consumerCnf (gw_c w))\<rparr>,
                     Some \<lparr>cap = Buffer (consumerCnf (gw_c w))\<rparr>, None), w')"
  by (simp add: Consume_def Let_def make_chan_def)

lemma simple_Consume_returns_queues:
  "partitions NC P CP ((sw_c w)\<lparr>s_cnl := True\<rparr>) = (c', Inr pcs) \<Longrightarrow> pcs \<noteq> [] \<Longrightarrow>
   0 \<le> Buffer (s_consumerCnf (sw_c w)) \<Longrightarrow>
   \<exists>w'. simple_Consume NC P CP w
          = Return ((Some \<lparr>cap = Buffer (s_consumerCnf (sw_c w))\<rparr>,
                     Some \<lparr>cap = Buffer (s_consumerCnf (sw_c w))\<rparr>, None), w')"
  by (simp add: simple_Consume_def Let_def make_chan_def)

lemma int64_lag_no_overflow:
  "0 \<le> sint (o' :: 64 word) \<Longrightarrow> 0 \<le> sint (h :: 64 word) \<Longrightarrow> sint (h - o') = sint h - sint o'"
proof -
  assume a: "0 \<le> sint o'" and b: "0 \<le> sint h"
  have ub: "sint o' < 2 ^ 63" "sint h < 2 ^ 63"
    using sint_lt [of o'] sint_lt [of h] by simp_all
  have "sint (h - o') = signed_take_bit 63 (sint h - sint o')"
    by (simp add: sint_word_ariths)
  also have "\<dots> = sint h - sint o'"
    using a b ub by (intro signed_take_bit_int_eq_self) simp_all
  finally show ?thesis .
qed



lemma pump_gauge_then_claim:
  "pump_at sw i = Some (Running PSelect) \<Longrightarrow>
   \<exists>sw1 sw2. simple_step CM (PumpMessage i r h) sw = Some sw1
        \<and> sw_trace sw1 = sw_trace sw @ [GaugeSet ([], Topic r, Partition r) (h - Offset r)]
        \<and> sw_decodes sw1 = sw_decodes sw @ [Running (DClaim r)]
        \<and> simple_step CM (DecodeRun (length (sw_decodes sw))) sw1 = Some sw2
        \<and> sw_trace sw2 = sw_trace sw1 @ [ClaimCall r]"
  by (cases "CM (DecoderFunc (s_consumerCnf (sw_c sw))) r")
     (simp_all add: pump_at_def decode_at_def TopicPartitionOffsetDiffGaugeSet_def nth_append)

lemma pump_stops_on_cancel:
  "s_cnl (sw_c sw) \<Longrightarrow> pump_at sw i = Some (Running PSelect) \<Longrightarrow>
   \<exists>sw'. simple_step CM (PumpCtxDone i) (snd (simple_Close sw)) = Some sw'
        \<and> pump_at sw' i = Some Returned
        \<and> sw_trace sw' = sw_trace sw @ [ReaderClose i]"
  by (simp add: simple_Close_def pump_at_def set_pump_def split: if_splits)

lemma option_chain_Nil: "option_chain [] cs \<longleftrightarrow> (\<exists>c. cs = [c])"
  by (cases cs) (auto simp: option_chain_def)

lemma option_chain_Cons:
  "option_chain (o' # os) cs \<longleftrightarrow>
     (\<exists>c0 cs'. cs = c0 # cs' \<and> opt_run o' c0 = Inr (cs' ! 0) \<and> option_chain os cs')"
proof (cases cs)
  case Nil
  then show ?thesis by (simp add: option_chain_def)
next
  case (Cons c0 cs')
  have "(\<forall>k\<in>{0..<Suc (length os)}. opt_run ((o' # os) ! k) ((c0 # cs') ! k) = Inr (cs' ! k))
        \<longleftrightarrow> (opt_run o' c0 = Inr (cs' ! 0)
             \<and> (\<forall>k\<in>{0..<length os}. opt_run (os ! k) (cs' ! k) = Inr (cs' ! Suc k)))"
    (is "?L \<longleftrightarrow> ?R")
  proof
    assume l: ?L
    have "opt_run o' c0 = Inr (cs' ! 0)" using l by force
    moreover have "\<forall>k\<in>{0..<length os}. opt_run (os ! k) (cs' ! k) = Inr (cs' ! Suc k)"
    proof
      fix k assume "k \<in> {0..<length os}"
      then have "Suc k \<in> {0..<Suc (length os)}" by simp
      with l have "opt_run ((o' # os) ! Suc k) ((c0 # cs') ! Suc k) = Inr (cs' ! Suc k)"
        by blast
      then show "opt_run (os ! k) (cs' ! k) = Inr (cs' ! Suc k)" by simp
    qed
    ultimately show ?R by blast
  next
    assume r: ?R
    show ?L
    proof
      fix k assume k: "k \<in> {0..<Suc (length os)}"
      show "opt_run ((o' # os) ! k) ((c0 # cs') ! k) = Inr (cs' ! k)"
      proof (cases k)
        case 0
        with r show ?thesis by simp
      next
        case (Suc j)
        with k have "j \<in> {0..<length os}" by simp
        with r Suc show ?thesis by simp
      qed
    qed
  qed
  with Cons show ?thesis
    by (auto simp add: option_chain_def list_all_iff simp del: upt_Suc)
qed

lemma apply_options_chain:
  "option_chain os cs \<Longrightarrow>
   apply_options wr os (cs ! 0) = (map opt_name os, Inr (cs ! length os))"
proof (induction os arbitrary: cs)
  case Nil
  then show ?case by (auto simp: option_chain_Nil)
next
  case (Cons o' os)
  from Cons.prems obtain c0 cs' where
    cs: "cs = c0 # cs'" and r: "opt_run o' c0 = Inr (cs' ! 0)" and ch: "option_chain os cs'"
    by (auto simp: option_chain_Cons)
  from Cons.IH [OF ch] cs r show ?case by simp
qed

lemma apply_options_chain_failure:
  "option_chain pre cs \<Longrightarrow> opt_run o1 (cs ! length pre) = Inl e \<Longrightarrow>
   apply_options wr (pre @ o1 # post) (cs ! 0)
     = (map opt_name pre @ [opt_name o1], Inl (wr o1 e))"
  using apply_options_chain [of pre cs wr] apply_options_first_failure [of wr pre "cs ! 0"]
  by simp




lemma simple_step_no_ClientClose:
  "simple_step CM a w = Some w' \<Longrightarrow> ClientClose \<notin> set (sw_trace w) \<Longrightarrow>
   ClientClose \<notin> set (sw_trace w') \<and> sw_c w' = sw_c w"
  by (cases a)
     (auto simp: TopicPartitionOffsetDiffGaugeSet_def
           split: if_splits option.splits task.splits pump_pc.splits decode_pc.splits
                  sum.splits)

lemma simple_run_no_ClientClose:
  "simple_run CM acts w = Some w' \<Longrightarrow> ClientClose \<notin> set (sw_trace w) \<Longrightarrow>
   ClientClose \<notin> set (sw_trace w') \<and> sw_c w' = sw_c w"
proof (induction acts arbitrary: w)
  case Nil
  then show ?case by simp
next
  case (Cons a acts)
  from Cons.prems(1) obtain w1 where
    s: "simple_step CM a w = Some w1" and r: "simple_run CM acts w1 = Some w'"
    by (auto split: option.splits)
  from simple_step_no_ClientClose [OF s Cons.prems(2)]
  have n: "ClientClose \<notin> set (sw_trace w1)" and c: "sw_c w1 = sw_c w" by simp_all
  from Cons.IH [OF r n] c show ?case by simp
qed

section \<open>Factory validation\<close>

text \<open>
  C6. New returns a validation error exactly when a required field is empty: the
  name, the topic or the broker list in either mode, or the group in group mode (both
  group packages); otherwise it returns the Factory holding the arguments.
\<close>

theorem New_error_iff_required_field_missing:
  "((\<exists>e. New n g t bs oo = Inl e) \<longleftrightarrow> (n = [] \<or> t = [] \<or> bs = [] \<or> g = []))
   \<and> ((\<exists>e. New2 n g t bs oo2 = Inl e) \<longleftrightarrow> (n = [] \<or> t = [] \<or> bs = [] \<or> g = []))
   \<and> ((\<exists>e. simple_New n t bs oo3 = Inl e) \<longleftrightarrow> (n = [] \<or> t = [] \<or> bs = []))
   \<and> (\<not> (n = [] \<or> t = [] \<or> bs = [] \<or> g = []) \<longrightarrow>
        New n g t bs oo = Inr \<lparr>f_name = n, f_group = g, f_topic = t, f_brokers = bs, f_oo = oo\<rparr>
        \<and> New2 n g t bs oo2
            = Inr \<lparr>f2_name = n, f2_group = g, f2_topic = t, f2_brokers = bs, f2_oo = oo2\<rparr>)
   \<and> (\<not> (n = [] \<or> t = [] \<or> bs = []) \<longrightarrow>
        simple_New n t bs oo3 = Inr \<lparr>sf_name = n, sf_topic = t, sf_brokers = bs, sf_oo = oo3\<rparr>)"
  by (simp add: New_def New2_def simple_New_def)

theorem New_error_iff_required_field_missing_witness:
  "New ''svc'' ''grp'' ''orders'' [''broker:9092''] ([] :: (unit, unit, unit) consumer OptionFunc list)
     = Inr \<lparr>f_name = ''svc'', f_group = ''grp'', f_topic = ''orders'',
            f_brokers = [''broker:9092''], f_oo = []\<rparr>
   \<and> simple_New ''svc'' ''orders'' [''broker:9092'']
        ([] :: (unit, unit, unit) simple_consumer OptionFunc list)
     = Inr \<lparr>sf_name = ''svc'', sf_topic = ''orders'', sf_brokers = [''broker:9092''], sf_oo = []\<rparr>
   \<and> (\<exists>e. New ''svc'' [] ''orders'' [''broker:9092'']
             ([] :: (unit, unit, unit) consumer OptionFunc list) = Inl e)"
  using New_error_iff_required_field_missing
          [of "''svc''" "''grp''" "''orders''" "[''broker:9092'']"
              "[] :: (unit, unit, unit) consumer OptionFunc list"
              "[] :: (unit, unit) ConsumerConfig OptionFunc list"
              "[] :: (unit, unit, unit) simple_consumer OptionFunc list"]
        New_error_iff_required_field_missing
          [of "''svc''" "[]" "''orders''" "[''broker:9092'']"
              "[] :: (unit, unit, unit) consumer OptionFunc list"
              "[] :: (unit, unit) ConsumerConfig OptionFunc list"
              "[] :: (unit, unit, unit) simple_consumer OptionFunc list"]
  by simp

section \<open>Option functions in Create\<close>

text \<open>
  C7, as the code has it. Create applies the options in declaration order, each to
  the target the one before it left, starting from the consumer (in the newer group
  package: the configuration) it has just built. When all options succeed, every
  option is called, in that order, and Create returns the last target. When the
  options before \<open>o\<close> succeed and \<open>o\<close> fails with \<open>e\<close> on the target they left, the
  options called are exactly those up to \<open>o\<close>, none after it, and Create fails:
  group.go returns a formatted error carrying the name of the failed option function
  and \<open>e\<close>; the newer group package returns \<open>e\<close> wrapped with a fixed message,
  without the option's name; the simple package returns \<open>e\<close> itself.
\<close>

theorem Create_applies_options_in_order:
  "(SC (f_name f) = Inr config \<and> option_chain (f_oo f) cs \<and> cs ! 0 = new_consumer f config
    \<longrightarrow> Create_calls SC f = (map opt_name (f_oo f), Inr (cs ! length (f_oo f))))
   \<and> (SC (f_name f) = Inr config \<and> f_oo f = pre @ o1 # post
      \<and> option_chain pre cs \<and> cs ! 0 = new_consumer f config
      \<and> opt_run o1 (cs ! length pre) = Inl e
    \<longrightarrow> Create_calls SC f
          = (map opt_name pre @ [opt_name o1],
             Inl (fmt_Errorf ''Could not apply OptionFunc '%v' to consumer : %v''
                    [ArgStr (opt_name o1), ArgErr e])))
   \<and> (SC (f2_name f2) = Inr config \<and> option_chain (f2_oo f2) cs2
      \<and> cs2 ! 0 = new_config2 f2 config
    \<longrightarrow> Create2_calls SC f2
          = (map opt_name (f2_oo f2),
             Inr \<lparr>topic2 = f2_topic f2, group2 = f2_group f2,
                  traceTag2 = (''group'', Some (f2_group f2)),
                  cnl2 = False, cg2 = None, config2 = cs2 ! length (f2_oo f2)\<rparr>))
   \<and> (SC (f2_name f2) = Inr config \<and> f2_oo f2 = pre2 @ o2 # post2
      \<and> option_chain pre2 cs2 \<and> cs2 ! 0 = new_config2 f2 config
      \<and> opt_run o2 (cs2 ! length pre2) = Inl e
    \<longrightarrow> Create2_calls SC f2
          = (map opt_name pre2 @ [opt_name o2],
             Inl (errors_Wrap e ''could not apply OptionFunc to consumer '')))
   \<and> (SC (sf_name f3) = Inr config \<and> option_chain (sf_oo f3) cs3
      \<and> cs3 ! 0 = simple_new_consumer f3 config
    \<longrightarrow> simple_Create_calls SC f3 = (map opt_name (sf_oo f3), Inr (cs3 ! length (sf_oo f3))))
   \<and> (SC (sf_name f3) = Inr config \<and> sf_oo f3 = pre3 @ o3 # post3
      \<and> option_chain pre3 cs3 \<and> cs3 ! 0 = simple_new_consumer f3 config
      \<and> opt_run o3 (cs3 ! length pre3) = Inl e
    \<longrightarrow> simple_Create_calls SC f3 = (map opt_name pre3 @ [opt_name o3], Inl e))"
proof (intro conjI impI)
  assume a: "SC (f_name f) = Inr config \<and> option_chain (f_oo f) cs
               \<and> cs ! 0 = new_consumer f config"
  with apply_options_chain [of "f_oo f" cs option_error]
  show "Create_calls SC f = (map opt_name (f_oo f), Inr (cs ! length (f_oo f)))"
    by (simp add: Create_calls_def)
next
  assume a: "SC (f_name f) = Inr config \<and> f_oo f = pre @ o1 # post
      \<and> option_chain pre cs \<and> cs ! 0 = new_consumer f config
      \<and> opt_run o1 (cs ! length pre) = Inl e"
  with apply_options_chain_failure [of pre cs o1 e option_error post]
  show "Create_calls SC f
          = (map opt_name pre @ [opt_name o1],
             Inl (fmt_Errorf ''Could not apply OptionFunc '%v' to consumer : %v''
                    [ArgStr (opt_name o1), ArgErr e]))"
    by (simp add: Create_calls_def option_error_def)
next
  assume a: "SC (f2_name f2) = Inr config \<and> option_chain (f2_oo f2) cs2
      \<and> cs2 ! 0 = new_config2 f2 config"
  with apply_options_chain [of "f2_oo f2" cs2 option_error2]
  show "Create2_calls SC f2
          = (map opt_name (f2_oo f2),
             Inr \<lparr>topic2 = f2_topic f2, group2 = f2_group f2,
                  traceTag2 = (''group'', Some (f2_group f2)),
                  cnl2 = False, cg2 = None, config2 = cs2 ! length (f2_oo f2)\<rparr>)"
    by (simp add: Create2_calls_def)
next
  assume a: "SC (f2_name f2) = Inr config \<and> f2_oo f2 = pre2 @ o2 # post2
      \<and> option_chain pre2 cs2 \<and> cs2 ! 0 = new_config2 f2 config
      \<and> opt_run o2 (cs2 ! length pre2) = Inl e"
  with apply_options_chain_failure [of pre2 cs2 o2 e option_error2 post2]
  show "Create2_calls SC f2
          = (map opt_name pre2 @ [opt_name o2],
             Inl (errors_Wrap e ''could not apply OptionFunc to consumer ''))"
    by (simp add: Create2_calls_def option_error2_def)
next
  assume a: "SC (sf_name f3) = Inr config \<and> option_chain (sf_oo f3) cs3
      \<and> cs3 ! 0 = simple_new_consumer f3 config"
  with apply_options_chain [of "sf_oo f3" cs3 "\<lambda>o' err. err"]
  show "simple_Create_calls SC f3 = (map opt_name (sf_oo f3), Inr (cs3 ! length (sf_oo f3)))"
    by (simp add: simple_Create_calls_def)
next
  assume a: "SC (sf_name f3) = Inr config \<and> sf_oo f3 = pre3 @ o3 # post3
      \<and> option_chain pre3 cs3 \<and> cs3 ! 0 = simple_new_consumer f3 config
      \<and> opt_run o3 (cs3 ! length pre3) = Inl e"
  with apply_options_chain_failure [of pre3 cs3 o3 e "\<lambda>o' err. err" post3]
  show "simple_Create_calls SC f3 = (map opt_name pre3 @ [opt_name o3], Inl e)"
    by (simp add: simple_Create_calls_def)
qed

theorem Create_applies_options_in_order_witness:
  "Create_calls (\<lambda>n. Inr ()) (ex_Factory\<lparr>f_oo := [ex_set_Buffer 5, ex_double_Buffer]\<rparr>)
     = ([''Buffer'', ''Double''], Inr (ex_with_Buffer 10))
   \<and> Create_calls (\<lambda>n. Inr ()) (ex_Factory\<lparr>f_oo := [ex_double_Buffer, ex_set_Buffer 5]\<rparr>)
     = ([''Double'', ''Buffer''], Inr (ex_with_Buffer 5))
   \<and> Create_calls (\<lambda>n. Inr ()) ex_Factory
     = ([''first'', ''second''],
        Inl (fmt_Errorf ''Could not apply OptionFunc '%v' to consumer : %v''
               [ArgStr ''second'', ArgErr (Foreign ''boom'')]))
   \<and> Create2_calls (\<lambda>n. Inr ()) (ex_Factory2\<lparr>f2_oo := [opt_ok ''first'', opt_ok ''third'']\<rparr>)
     = ([''first'', ''third''], Inr ex_consumer2)
   \<and> Create2_calls (\<lambda>n. Inr ()) ex_Factory2
     = ([''first'', ''second''],
        (Inl (errors_Wrap (Foreign ''boom'') ''could not apply OptionFunc to consumer '')
          :: error + (unit, unit, unit) consumer2))
   \<and> simple_Create_calls (\<lambda>n. Inr ())
        (ex_simple_Factory\<lparr>sf_oo := [opt_ok ''first'', opt_ok ''third'']\<rparr>)
     = ([''first'', ''third''], Inr ex_simple_consumer)
   \<and> simple_Create_calls (\<lambda>n. Inr ()) ex_simple_Factory
     = ([''first'', ''second''], Inl (Foreign ''boom''))"
proof -
  let ?SC = "\<lambda>n :: string. (Inr () :: error + unit)"
  let ?bad = "Foreign ''boom''"
  let ?fa = "ex_Factory\<lparr>f_oo := [ex_set_Buffer 5, ex_double_Buffer]\<rparr>"
  let ?fb = "ex_Factory\<lparr>f_oo := [ex_double_Buffer, ex_set_Buffer 5]\<rparr>"
  let ?f2 = "ex_Factory2\<lparr>f2_oo := [opt_ok ''first'', opt_ok ''third'']\<rparr>"
  let ?f3 = "ex_simple_Factory\<lparr>sf_oo := [opt_ok ''first'', opt_ok ''third'']\<rparr>"
  let ?csa = "[ex_consumer, ex_with_Buffer 5, ex_with_Buffer 10]"
  let ?csb = "[ex_consumer, ex_with_Buffer 0, ex_with_Buffer 5]"
  let ?c2 = "new_config2 ex_Factory2 () :: (unit, unit) ConsumerConfig"
  have ca: "option_chain (f_oo ?fa) ?csa"
    by (simp add: option_chain_def ex_set_Buffer_def ex_double_Buffer_def ex_with_Buffer_def)
  have cb: "option_chain (f_oo ?fb) ?csb"
    by (simp add: option_chain_def ex_set_Buffer_def ex_double_Buffer_def ex_with_Buffer_def
          ex_consumer_def new_consumer_def)
  have ha: "?csa ! 0 = new_consumer ?fa ()" and hb: "?csb ! 0 = new_consumer ?fb ()"
    by (simp_all add: ex_consumer_def new_consumer_def)
  have na: "map opt_name (f_oo ?fa) = [''Buffer'', ''Double'']"
    and nb: "map opt_name (f_oo ?fb) = [''Double'', ''Buffer'']"
    and la: "?csa ! length (f_oo ?fa) = ex_with_Buffer 10"
    and lb: "?csb ! length (f_oo ?fb) = ex_with_Buffer 5"
    by (simp_all add: ex_set_Buffer_def ex_double_Buffer_def)
  have "Create_calls ?SC ?fa = (map opt_name (f_oo ?fa), Inr (?csa ! length (f_oo ?fa)))"
    by (rule Create_applies_options_in_order
               [where SC = ?SC and config = "()" and f = ?fa and cs = ?csa, THEN conjunct1, rule_format])
       (intro conjI refl ca ha)
  then have g1: "Create_calls ?SC ?fa = ([''Buffer'', ''Double''], Inr (ex_with_Buffer 10))"
    by (simp only: na la)
  have "Create_calls ?SC ?fb = (map opt_name (f_oo ?fb), Inr (?csb ! length (f_oo ?fb)))"
    by (rule Create_applies_options_in_order
               [where SC = ?SC and config = "()" and f = ?fb and cs = ?csb, THEN conjunct1, rule_format])
       (intro conjI refl cb hb)
  then have g2: "Create_calls ?SC ?fb = ([''Double'', ''Buffer''], Inr (ex_with_Buffer 5))"
    by (simp only: nb lb)
  let ?ok1 = "opt_ok ''first'' :: (unit, unit, unit) consumer OptionFunc"
  let ?no1 = "opt_bad ''second'' ?bad :: (unit, unit, unit) consumer OptionFunc"
  let ?th1 = "opt_ok ''third'' :: (unit, unit, unit) consumer OptionFunc"
  let ?ok2 = "opt_ok ''first'' :: (unit, unit) ConsumerConfig OptionFunc"
  let ?no2 = "opt_bad ''second'' ?bad :: (unit, unit) ConsumerConfig OptionFunc"
  let ?th2 = "opt_ok ''third'' :: (unit, unit) ConsumerConfig OptionFunc"
  let ?ok3 = "opt_ok ''first'' :: (unit, unit, unit) simple_consumer OptionFunc"
  let ?no3 = "opt_bad ''second'' ?bad :: (unit, unit, unit) simple_consumer OptionFunc"
  let ?th3 = "opt_ok ''third'' :: (unit, unit, unit) simple_consumer OptionFunc"
  note t = Create_applies_options_in_order
         [where SC = ?SC and config = "()" and e = ?bad
            and f = ex_Factory and pre = "[?ok1]" and ?o1.0 = ?no1 and post = "[?th1]"
            and cs = "[ex_consumer, ex_consumer]"
            and ?f2.0 = ex_Factory2 and ?pre2.0 = "[?ok2]" and ?o2.0 = ?no2
            and ?post2.0 = "[?th2]" and ?cs2.0 = "[?c2, ?c2]"
            and ?f3.0 = ex_simple_Factory and ?pre3.0 = "[?ok3]" and ?o3.0 = ?no3
            and ?post3.0 = "[?th3]" and ?cs3.0 = "[ex_simple_consumer, ex_simple_consumer]"]
  have p1: "?SC (f_name ex_Factory) = Inr () \<and> f_oo ex_Factory = [?ok1] @ ?no1 # [?th1]
      \<and> option_chain [?ok1] [ex_consumer, ex_consumer]
      \<and> [ex_consumer, ex_consumer] ! 0 = new_consumer ex_Factory ()
      \<and> opt_run ?no1 ([ex_consumer, ex_consumer] ! length [?ok1]) = Inl ?bad"
    by (simp add: ex_Factory_def ex_oo_def ex_consumer_def option_chain_def opt_ok_def
          opt_bad_def)
  have p2: "?SC (f2_name ex_Factory2) = Inr () \<and> f2_oo ex_Factory2 = [?ok2] @ ?no2 # [?th2]
      \<and> option_chain [?ok2] [?c2, ?c2]
      \<and> [?c2, ?c2] ! 0 = new_config2 ex_Factory2 ()
      \<and> opt_run ?no2 ([?c2, ?c2] ! length [?ok2]) = Inl ?bad"
    by (simp add: ex_Factory2_def ex_oo_def option_chain_def opt_ok_def opt_bad_def)
  have p3: "?SC (sf_name ex_simple_Factory) = Inr ()
      \<and> sf_oo ex_simple_Factory = [?ok3] @ ?no3 # [?th3]
      \<and> option_chain [?ok3] [ex_simple_consumer, ex_simple_consumer]
      \<and> [ex_simple_consumer, ex_simple_consumer] ! 0 = simple_new_consumer ex_simple_Factory ()
      \<and> opt_run ?no3 ([ex_simple_consumer, ex_simple_consumer] ! length [?ok3]) = Inl ?bad"
    by (simp add: ex_simple_Factory_def ex_oo_def ex_simple_consumer_def option_chain_def
          opt_ok_def opt_bad_def)
  have g3: "Create_calls ?SC ex_Factory
     = ([''first'', ''second''],
        Inl (fmt_Errorf ''Could not apply OptionFunc '%v' to consumer : %v''
               [ArgStr ''second'', ArgErr ?bad]))"
    using t [THEN conjunct2, THEN conjunct1, THEN mp, OF p1]
    by (simp add: opt_ok_def opt_bad_def)
  have g5: "Create2_calls ?SC ex_Factory2
     = ([''first'', ''second''],
        (Inl (errors_Wrap ?bad ''could not apply OptionFunc to consumer '')
          :: error + (unit, unit, unit) consumer2))"
    using t [THEN conjunct2, THEN conjunct2, THEN conjunct2, THEN conjunct1, THEN mp, OF p2]
    by (simp add: opt_ok_def opt_bad_def)
  have g7: "simple_Create_calls ?SC ex_simple_Factory = ([''first'', ''second''], Inl ?bad)"
    using t [THEN conjunct2, THEN conjunct2, THEN conjunct2, THEN conjunct2, THEN conjunct2,
             THEN mp, OF p3]
    by (simp add: opt_ok_def opt_bad_def)
  have c2s: "option_chain (f2_oo ?f2) [?c2, ?c2, ?c2]"
    and c3s: "option_chain (sf_oo ?f3) [ex_simple_consumer, ex_simple_consumer, ex_simple_consumer]"
    by (simp_all add: option_chain_def opt_ok_def)
  have h2: "[?c2, ?c2, ?c2] ! 0 = new_config2 ?f2 ()"
    "[ex_simple_consumer, ex_simple_consumer, ex_simple_consumer] ! 0
       = simple_new_consumer ?f3 ()"
    by (simp_all add: new_config2_def ex_simple_consumer_def simple_new_consumer_def
          ex_Factory2_def)
  note s = Create_applies_options_in_order
         [where SC = ?SC and config = "()" and ?f2.0 = ?f2 and ?cs2.0 = "[?c2, ?c2, ?c2]"
            and ?f3.0 = ?f3
            and ?cs3.0 = "[ex_simple_consumer, ex_simple_consumer, ex_simple_consumer]"]
  have "Create2_calls ?SC ?f2
          = (map opt_name (f2_oo ?f2),
             (Inr \<lparr>topic2 = f2_topic ?f2, group2 = f2_group ?f2,
                  traceTag2 = (''group'', Some (f2_group ?f2)),
                  cnl2 = False, cg2 = None, config2 = [?c2, ?c2, ?c2] ! length (f2_oo ?f2)\<rparr>
               :: error + (unit, unit, unit) consumer2))"
    by (rule s [THEN conjunct2, THEN conjunct2, THEN conjunct1, rule_format])
       (intro conjI refl c2s h2(1))
  then have g4: "Create2_calls ?SC ?f2 = ([''first'', ''third''], Inr ex_consumer2)"
    by (simp add: ex_Factory2_def ex_consumer2_def opt_ok_def)
  have "simple_Create_calls ?SC ?f3
          = (map opt_name (sf_oo ?f3),
             Inr ([ex_simple_consumer, ex_simple_consumer, ex_simple_consumer] ! length (sf_oo ?f3)))"
    by (rule s [THEN conjunct2, THEN conjunct2, THEN conjunct2, THEN conjunct2, THEN conjunct1,
                rule_format])
       (intro conjI refl c3s h2(2))
  then have g6: "simple_Create_calls ?SC ?f3 = ([''first'', ''third''], Inr ex_simple_consumer)"
    by (simp add: opt_ok_def)
  from g1 g2 g3 g4 g5 g6 g7 show ?thesis by blast
qed

text \<open>
  C7 as stated fails in two packages: for a failing option, the simple package's
  Create returns the option's own error, neither wrapped nor naming the option, and
  the newer group package's Create returns it wrapped with a message that does not
  name the option.
\<close>

theorem Create_option_error_not_identifying:
  "simple_Create (\<lambda>n. Inr ()) ex_simple_Factory = Inl (Foreign ''boom'')
   \<and> \<not> wraps (Foreign ''boom'') (Foreign ''boom'')
   \<and> \<not> identifies (Foreign ''boom'') ''second''
   \<and> Create2 (\<lambda>n. Inr ()) ex_Factory2
       = (Inl (errors_Wrap (Foreign ''boom'') ''could not apply OptionFunc to consumer '')
           :: error + (unit, unit, unit) consumer2)
   \<and> \<not> identifies (errors_Wrap (Foreign ''boom'') ''could not apply OptionFunc to consumer '')
         ''second''"
  by (simp add: simple_Create_def simple_Create_calls_def ex_simple_Factory_def
        Create2_def Create2_calls_def ex_Factory2_def ex_oo_def option_error2_def
        opt_ok_def opt_bad_def wraps_def identifies_def)

section \<open>Close before Consume\<close>

text \<open>
  C1 on the code: Close of a group consumer whose coordination client is still nil (no
  Consume yet, or a Consume that failed to create the client) panics, in both group
  packages. Close guards \<^verbatim>\<open>c.cnl\<close> against nil and \<^verbatim>\<open>closeConsumer\<close> guards the
  client against nil; Close calls \<^verbatim>\<open>c.cg.Close()\<close> without that guard.
\<close>

theorem Close_before_Consume_panics:
  "(cg (gw_c w) = None \<longrightarrow>
      Close r w = Panic ''invalid memory address or nil pointer dereference'')
   \<and> (cg2 (gw_c w2) = None \<longrightarrow>
      Close2 r w2 = Panic ''invalid memory address or nil pointer dereference'')"
  by (simp add: Close_def Close2_def)

theorem Close_before_Consume_panics_witness:
  "Create (\<lambda>n. Inr ()) (ex_Factory\<lparr>f_oo := []\<rparr>) = Inr ex_consumer
   \<and> cg (gw_c (created ex_consumer :: ((unit, unit, unit) consumer, unit, string) group_world)) = None
   \<and> Close None (created ex_consumer :: ((unit, unit, unit) consumer, unit, string) group_world)
       = Panic ''invalid memory address or nil pointer dereference''
   \<and> Close2 None (created ex_consumer2 :: ((unit, unit, unit) consumer2, unit, string) group_world)
       = Panic ''invalid memory address or nil pointer dereference''"
  using Close_before_Consume_panics
    [of "created ex_consumer :: ((unit, unit, unit) consumer, unit, string) group_world"
        None
        "created ex_consumer2 :: ((unit, unit, unit) consumer2, unit, string) group_world"]
  by (simp add: Create_def Create_calls_def ex_Factory_def ex_consumer_def ex_consumer2_def
        new_consumer_def created_def)

section \<open>Termination of the background tasks\<close>

text \<open>
  C2 on the code: the session loop has no exit. Whatever the client's
  \<^verbatim>\<open>Consume\<close> returns and however the tasks are scheduled, a session loop that
  is running is still running after any number of steps, also after Close has
  cancelled the token and the watchdog has closed the client and returned.
\<close>

theorem session_loop_never_returns:
  "gw_session w = Running pc \<Longrightarrow> group_run acts w = Some w' \<Longrightarrow>
   \<exists>pc'. gw_session w' = Running pc'"
proof (induction acts arbitrary: w pc)
  case Nil
  then show ?case by simp
next
  case (Cons a acts)
  from Cons.prems(2) obtain w1 where
    s: "group_step a w = Some w1" and r: "group_run acts w1 = Some w'"
    by (auto split: option.splits)
  from group_step_session_running [OF s Cons.prems(1)] obtain pc1 where
    "gw_session w1 = Running pc1" by blast
  from Cons.IH [OF this r] show ?case .
qed

theorem session_loop_never_returns_witness:
  "Close None ex_consuming = Return (None, ex_closed)
   \<and> gw_cancelled ex_closed
   \<and> gw_session ex_closed = Running SlConsume
   \<and> (\<exists>w'. group_run ex_after_close ex_closed = Some w'
          \<and> gw_watchdog w' = Returned
          \<and> gw_session w' = Running (SlSendErr (Foreign ''consumer group closed'')))"
proof -
  have c: "Close None ex_consuming = Return (None, ex_closed)"
    by (simp add: ex_closed_def ex_consuming_eq Close_def Wrap_def ex_consumer_def new_consumer_def)
  have e: "ex_closed = ex_consuming\<lparr>gw_cancelled := True, gw_trace := [ClientClose]\<rparr>"
    by (simp add: ex_closed_def ex_consuming_eq Close_def Wrap_def ex_consumer_def new_consumer_def)
  have s: "gw_session ex_closed = Running SlConsume"
    by (simp add: e ex_consuming_eq)
  obtain w' where r: "group_run ex_after_close ex_closed = Some w'"
    and wd: "gw_watchdog w' = Returned"
    by (simp add: e ex_consuming_eq ex_after_close_def closeConsumer_def)
  from session_loop_never_returns [OF s r] obtain pc' where "gw_session w' = Running pc'" ..
  with r have sl: "gw_session w' = Running (SlSendErr (Foreign ''consumer group closed''))"
    by (auto simp add: e ex_consuming_eq ex_after_close_def closeConsumer_def)
  have cn: "gw_cancelled ex_closed" by (simp add: e)
  from c cn s r wd sl show ?thesis by blast
qed

section \<open>Ordering in the claim handler\<close>

text \<open>
  C3. In group mode, when every record of a claim decodes (record \<open>k\<close> to message
  \<open>ms ! k\<close>), the claim handler returns no error and its trace is, record after
  record in the order of the claim, the gauge update, the call of the claim processor
  and the send of the resulting message: the claim processor is called once per
  record in that order and the message queue receives the messages \<open>ms\<close> in that
  order. Both group packages.
\<close>

theorem ConsumeClaim_delivers_in_offset_order:
  "(list_all2 (\<lambda>rh x. CM (DecoderFunc (consumerCnf c)) (fst rh) = Inr x) claim ms \<longrightarrow>
      ConsumeClaim c CM claim
        = (concat (map2 (\<lambda>rh x. [GaugeSet (group c, Topic (fst rh), Partition (fst rh))
                                     (snd rh - Offset (fst rh)),
                                   ClaimCall (fst rh), SendMsg x]) claim ms), None)
      \<and> claim_calls (fst (ConsumeClaim c CM claim)) = map fst claim
      \<and> sent_msgs (fst (ConsumeClaim c CM claim)) = ms)
   \<and> (list_all2 (\<lambda>rh x. CM (DecoderFunc (config2 c2)) (fst rh) = Inr x) claim ms \<longrightarrow>
      ConsumeClaim2 c2 CM claim
        = (concat (map2 (\<lambda>rh x. [GaugeSet (group2 c2, Topic (fst rh), Partition (fst rh))
                                     (snd rh - Offset (fst rh)),
                                   ClaimCall (fst rh), SendMsg x]) claim ms), None)
      \<and> claim_calls (fst (ConsumeClaim2 c2 CM claim)) = map fst claim
      \<and> sent_msgs (fst (ConsumeClaim2 c2 CM claim)) = ms)"
proof (intro conjI impI)
  assume a: "list_all2 (\<lambda>rh x. CM (DecoderFunc (consumerCnf c)) (fst rh) = Inr x) claim ms"
  then have len: "length claim = length ms" by (rule list_all2_lengthD)
  from ConsumeClaim_loop_all_decoded
         [where CM = CM and dec = "DecoderFunc (consumerCnf c)" and grp = "group c", OF a]
  show tr: "ConsumeClaim c CM claim
        = (concat (map2 (\<lambda>rh x. [GaugeSet (group c, Topic (fst rh), Partition (fst rh))
                                     (snd rh - Offset (fst rh)),
                                   ClaimCall (fst rh), SendMsg x]) claim ms), None)"
    by (simp add: ConsumeClaim_def TopicPartitionOffsetDiffGaugeSet_def)
  from ConsumeClaim_loop_all_decoded
         [where CM = CM and dec = "DecoderFunc (consumerCnf c)" and grp = "group c", OF a] claim_calls_records [OF len, of "group c"]
  show "claim_calls (fst (ConsumeClaim c CM claim)) = map fst claim"
    by (simp add: ConsumeClaim_def)
  from ConsumeClaim_loop_all_decoded
         [where CM = CM and dec = "DecoderFunc (consumerCnf c)" and grp = "group c", OF a] sent_msgs_records [OF len, of "group c"]
  show "sent_msgs (fst (ConsumeClaim c CM claim)) = ms"
    by (simp add: ConsumeClaim_def)
next
  assume a: "list_all2 (\<lambda>rh x. CM (DecoderFunc (config2 c2)) (fst rh) = Inr x) claim ms"
  then have len: "length claim = length ms" by (rule list_all2_lengthD)
  from ConsumeClaim_loop_all_decoded
         [where CM = CM and dec = "DecoderFunc (config2 c2)" and grp = "group2 c2", OF a]
  show "ConsumeClaim2 c2 CM claim
        = (concat (map2 (\<lambda>rh x. [GaugeSet (group2 c2, Topic (fst rh), Partition (fst rh))
                                     (snd rh - Offset (fst rh)),
                                   ClaimCall (fst rh), SendMsg x]) claim ms), None)"
    by (simp add: ConsumeClaim2_def TopicPartitionOffsetDiffGaugeSet_def)
  from ConsumeClaim_loop_all_decoded
         [where CM = CM and dec = "DecoderFunc (config2 c2)" and grp = "group2 c2", OF a] claim_calls_records [OF len, of "group2 c2"]
  show "claim_calls (fst (ConsumeClaim2 c2 CM claim)) = map fst claim"
    by (simp add: ConsumeClaim2_def)
  from ConsumeClaim_loop_all_decoded
         [where CM = CM and dec = "DecoderFunc (config2 c2)" and grp = "group2 c2", OF a] sent_msgs_records [OF len, of "group2 c2"]
  show "sent_msgs (fst (ConsumeClaim2 c2 CM claim)) = ms"
    by (simp add: ConsumeClaim2_def)
qed

theorem ConsumeClaim_delivers_in_offset_order_witness:
  "map (\<lambda>rh. unat (Offset (fst rh))) ex_claim = [0, 1, 2]
   \<and> list_all2 (\<lambda>rh x. ex_ClaimMessage (DecoderFunc (consumerCnf ex_consumer)) (fst rh) = Inr x)
        ex_claim [''a'', ''b'', ''c'']
   \<and> snd (ConsumeClaim ex_consumer ex_ClaimMessage ex_claim) = None
   \<and> claim_calls (fst (ConsumeClaim ex_consumer ex_ClaimMessage ex_claim))
       = [ex_record 0 ''a'', ex_record 1 ''b'', ex_record 2 ''c'']
   \<and> sent_msgs (fst (ConsumeClaim ex_consumer ex_ClaimMessage ex_claim)) = [''a'', ''b'', ''c'']
   \<and> sent_msgs (fst (ConsumeClaim2 ex_consumer2 ex_ClaimMessage ex_claim)) = [''a'', ''b'', ''c'']"
proof -
  have o: "map (\<lambda>rh. unat (Offset (fst rh))) ex_claim = [0, 1, 2]"
    by (simp add: ex_claim_def ex_record_def)
  have h: "list_all2 (\<lambda>rh x. ex_ClaimMessage (DecoderFunc (consumerCnf ex_consumer)) (fst rh) = Inr x)
        ex_claim [''a'', ''b'', ''c'']"
    by (simp add: ex_claim_def ex_record_def ex_ClaimMessage_def)
  have h2: "list_all2 (\<lambda>rh x. ex_ClaimMessage (DecoderFunc (config2 ex_consumer2)) (fst rh) = Inr x)
        ex_claim [''a'', ''b'', ''c'']"
    by (simp add: ex_claim_def ex_record_def ex_ClaimMessage_def)
  from ConsumeClaim_delivers_in_offset_order
         [of ex_ClaimMessage ex_consumer ex_claim "[''a'', ''b'', ''c'']" ex_consumer2] h h2 o
  show ?thesis by (simp add: ex_claim_def)
qed

section \<open>Decode errors\<close>



section \<open>Zero partitions\<close>

text \<open>
  C5. In simple mode, when the client is created and partition discovery yields zero
  partitions, Consume returns nil queues and the error "got 0 partitions", and it
  starts no pump and no decode task. (The queues are made before the discovery, so
  the buffer capacity is not negative when the discovery runs.)
\<close>

theorem zero_partitions_fail_Consume:
  "NC (Brokers (s_consumerCnf (sw_c w))) (s_saramaCnf (sw_c w)) = Inr ms' \<Longrightarrow>
   P ms' (s_topic (sw_c w)) = Inr [] \<Longrightarrow>
   0 \<le> Buffer (s_consumerCnf (sw_c w)) \<Longrightarrow>
   \<exists>w'. simple_Consume NC P CP w
          = Return ((None, None, Some (errors_New ''got 0 partitions'')), w')
        \<and> sw_pumps w' = sw_pumps w \<and> sw_decodes w' = sw_decodes w
        \<and> sw_chMsg w' = sw_chMsg w \<and> sw_chErr w' = sw_chErr w \<and> sw_trace w' = sw_trace w"
  by (simp add: simple_Consume_def partitions_def Let_def make_chan_def)

theorem zero_partitions_fail_Consume_witness:
  "\<exists>w'. simple_Consume (\<lambda>bs cnf. Inr ()) (\<lambda>ms' t. Inr []) (\<lambda>ms' t p cnf. Inr (unat p))
           (simple_created ex_simple_consumer
              :: ((unit, unit, unit) simple_consumer, nat, string) simple_world)
         = Return ((None, None, Some (errors_New ''got 0 partitions'')), w')
       \<and> sw_pumps w' = [] \<and> sw_decodes w' = [] \<and> sw_chMsg w' = None \<and> sw_chErr w' = None"
proof -
  let ?w = "simple_created ex_simple_consumer
              :: ((unit, unit, unit) simple_consumer, nat, string) simple_world"
  have w: "sw_pumps ?w = [] \<and> sw_decodes ?w = [] \<and> sw_chMsg ?w = None \<and> sw_chErr ?w = None"
    by (simp add: simple_created_def)
  have "0 \<le> Buffer (s_consumerCnf (sw_c ?w))"
    by (simp add: simple_created_def ex_simple_consumer_def simple_new_consumer_def)
  from zero_partitions_fail_Consume
         [where NC = "\<lambda>bs cnf. Inr ()" and P = "\<lambda>ms' t. Inr []"
            and CP = "\<lambda>ms' t p cnf. Inr (unat p)" and ms' = "()" and w = ?w, OF refl refl this]
  obtain w' where
    "simple_Consume (\<lambda>bs cnf. Inr ()) (\<lambda>ms' t. Inr []) (\<lambda>ms' t p cnf. Inr (unat p)) ?w
       = Return ((None, None, Some (errors_New ''got 0 partitions'')), w')"
    "sw_pumps w' = sw_pumps ?w" "sw_decodes w' = sw_decodes ?w"
    "sw_chMsg w' = sw_chMsg ?w" "sw_chErr w' = sw_chErr ?w"
    by blast
  with w show ?thesis by metis
qed

section \<open>Shutdown\<close>

text \<open>
  C8 on the code: in simple mode Close does not release the direct client the
  consumer owns. Close returns no error and makes no Close call on that client, and
  neither does any step of a pump or of a decode task: after Close and any steps of
  the tasks, also when every pump has observed the cancellation, closed its reader
  and returned, the client the consumer holds has received no Close call.
\<close>

theorem simple_Close_never_closes_client:
  "ClientClose \<notin> set (sw_trace w) \<Longrightarrow>
   simple_run CM acts (snd (simple_Close w)) = Some w' \<Longrightarrow>
   fst (simple_Close w) = None
   \<and> ClientClose \<notin> set (sw_trace w') \<and> s_ms (sw_c w') = s_ms (sw_c w)"
proof -
  assume n: "ClientClose \<notin> set (sw_trace w)"
    and r: "simple_run CM acts (snd (simple_Close w)) = Some w'"
  have t: "sw_trace (snd (simple_Close w)) = sw_trace w"
    and c: "sw_c (snd (simple_Close w)) = sw_c w"
    by (simp_all add: simple_Close_def)
  from n t have "ClientClose \<notin> set (sw_trace (snd (simple_Close w)))" by simp
  from simple_run_no_ClientClose [OF r this] c
  show ?thesis by (simp add: simple_Close_def)
qed

theorem simple_Close_leaves_client_open:
  "s_ms (sw_c ex_simple_consuming) = Some ()
   \<and> ClientClose \<notin> set (sw_trace ex_simple_consuming)
   \<and> simple_Close ex_simple_consuming = (None, ex_simple_closed)
   \<and> simple_run ex_ClaimMessage [PumpCtxDone 0, PumpCtxDone 1] ex_simple_closed
       = Some ex_simple_stopped
   \<and> map pump_task (sw_pumps ex_simple_stopped) = [Returned, Returned]
   \<and> sw_trace ex_simple_stopped = [ReaderClose 0, ReaderClose 1]
   \<and> ClientClose \<notin> set (sw_trace ex_simple_stopped)
   \<and> s_ms (sw_c ex_simple_stopped) = Some ()"
proof -
  have c: "ex_simple_closed = ex_simple_consuming\<lparr>sw_cancelled := True\<rparr>"
    by (simp add: ex_simple_closed_def simple_Close_def ex_simple_consuming_eq)
  have a: "simple_Close ex_simple_consuming = (None, ex_simple_closed)"
    by (simp add: ex_simple_closed_def simple_Close_def)
  have b: "simple_run ex_ClaimMessage [PumpCtxDone 0, PumpCtxDone 1] ex_simple_closed
       = Some ex_simple_stopped"
    by (simp add: c ex_simple_consuming_eq ex_simple_stopped_def pump_at_def set_pump_def)
  have n: "ClientClose \<notin> set (sw_trace ex_simple_consuming)"
    and m: "s_ms (sw_c ex_simple_consuming) = Some ()"
    by (simp_all add: ex_simple_consuming_eq)
  from b have b': "simple_run ex_ClaimMessage [PumpCtxDone 0, PumpCtxDone 1]
                     (snd (simple_Close ex_simple_consuming)) = Some ex_simple_stopped"
    by (simp add: ex_simple_closed_def)
  from simple_Close_never_closes_client [OF n b'] m
  have e: "ClientClose \<notin> set (sw_trace ex_simple_stopped)"
    and f: "s_ms (sw_c ex_simple_stopped) = Some ()"
    by simp_all
  have d: "map pump_task (sw_pumps ex_simple_stopped) = [Returned, Returned]"
    "sw_trace ex_simple_stopped = [ReaderClose 0, ReaderClose 1]"
    by (simp_all add: ex_simple_stopped_def)
  from m n a b d e f show ?thesis by blast
qed

section \<open>Lag gauge\<close>

text \<open>
  C9. In group mode, for every record the claim handler reaches (the records before
  it decoded), the gauge keyed by the group, the record's topic and its partition is
  set to the high-water mark minus the record's offset, and the call of the claim
  processor for that record is the next effect. In simple mode the pump sets the
  gauge (with the empty group) in the step in which it receives the record and starts
  the decode task, whose call of the claim processor is a later step. For an offset
  and a high-water mark that are not negative, the \<^verbatim>\<open>int64\<close> difference does not
  wrap.
\<close>

theorem lag_gauge_set_before_decode:
  "(ConsumeClaim c CM pre = (es, None)
    \<longrightarrow> (\<exists>es'. fst (ConsumeClaim c CM (pre @ (r, h) # post))
              = es @ GaugeSet (group c, Topic r, Partition r) (h - Offset r) # ClaimCall r # es'))
   \<and> (ConsumeClaim2 c2 CM pre = (es, None)
    \<longrightarrow> (\<exists>es'. fst (ConsumeClaim2 c2 CM (pre @ (r, h) # post))
              = es @ GaugeSet (group2 c2, Topic r, Partition r) (h - Offset r) # ClaimCall r # es'))
   \<and> (pump_at sw i = Some (Running PSelect)
    \<longrightarrow> (\<exists>sw1 sw2. simple_step CM (PumpMessage i r h) sw = Some sw1
            \<and> sw_trace sw1 = sw_trace sw @ [GaugeSet ([], Topic r, Partition r) (h - Offset r)]
            \<and> sw_decodes sw1 = sw_decodes sw @ [Running (DClaim r)]
            \<and> simple_step CM (DecodeRun (length (sw_decodes sw))) sw1 = Some sw2
            \<and> sw_trace sw2 = sw_trace sw1 @ [ClaimCall r]))
   \<and> (0 \<le> sint (Offset r) \<and> 0 \<le> sint h
    \<longrightarrow> (\<exists>v. (TopicPartitionOffsetDiffGaugeSet g (Topic r) (Partition r) h (Offset r) :: 'm event)
                = GaugeSet (g, Topic r, Partition r) v
            \<and> sint v = sint h - sint (Offset r)))"
proof (intro conjI impI)
  assume "ConsumeClaim c CM pre = (es, None)"
  then show "\<exists>es'. fst (ConsumeClaim c CM (pre @ (r, h) # post))
              = es @ GaugeSet (group c, Topic r, Partition r) (h - Offset r) # ClaimCall r # es'"
    using ConsumeClaim_loop_next_record
            [where grp = "group c" and dec = "DecoderFunc (consumerCnf c)" and CM = CM
               and pre = pre and es = es and r = r and h = h and post = post]
    by (simp add: ConsumeClaim_def)
next
  assume "ConsumeClaim2 c2 CM pre = (es, None)"
  then show "\<exists>es'. fst (ConsumeClaim2 c2 CM (pre @ (r, h) # post))
              = es @ GaugeSet (group2 c2, Topic r, Partition r) (h - Offset r) # ClaimCall r # es'"
    using ConsumeClaim_loop_next_record
            [where grp = "group2 c2" and dec = "DecoderFunc (config2 c2)" and CM = CM
               and pre = pre and es = es and r = r and h = h and post = post]
    by (simp add: ConsumeClaim2_def)
next
  assume "pump_at sw i = Some (Running PSelect)"
  then show "\<exists>sw1 sw2. simple_step CM (PumpMessage i r h) sw = Some sw1
            \<and> sw_trace sw1 = sw_trace sw @ [GaugeSet ([], Topic r, Partition r) (h - Offset r)]
            \<and> sw_decodes sw1 = sw_decodes sw @ [Running (DClaim r)]
            \<and> simple_step CM (DecodeRun (length (sw_decodes sw))) sw1 = Some sw2
            \<and> sw_trace sw2 = sw_trace sw1 @ [ClaimCall r]"
    by (rule pump_gauge_then_claim)
next
  assume "0 \<le> sint (Offset r) \<and> 0 \<le> sint h"
  then have "sint (h - Offset r) = sint h - sint (Offset r)"
    using int64_lag_no_overflow [of "Offset r" h] by blast
  then show "\<exists>v. (TopicPartitionOffsetDiffGaugeSet g (Topic r) (Partition r) h (Offset r) :: 'm event)
                = GaugeSet (g, Topic r, Partition r) v
            \<and> sint v = sint h - sint (Offset r)"
    by (simp add: TopicPartitionOffsetDiffGaugeSet_def)
qed

theorem lag_gauge_set_before_decode_witness:
  "fst (ConsumeClaim ex_consumer ex_ClaimMessage ex_claim)
     = [GaugeSet (''grp'', ''orders'', 0) 3, ClaimCall (ex_record 0 ''a''), SendMsg ''a'',
        GaugeSet (''grp'', ''orders'', 0) 2, ClaimCall (ex_record 1 ''b''), SendMsg ''b'',
        GaugeSet (''grp'', ''orders'', 0) 5, ClaimCall (ex_record 2 ''c''), SendMsg ''c'']
   \<and> (\<exists>sw1 sw2. simple_step ex_ClaimMessage (PumpMessage 1 (ex_record 2 ''c'') 7)
                    ex_simple_consuming = Some sw1
          \<and> sw_trace sw1 = [GaugeSet ([], ''orders'', 0) 5]
          \<and> sw_decodes sw1 = [Running (DClaim (ex_record 2 ''c''))]
          \<and> simple_step ex_ClaimMessage (DecodeRun 0) sw1 = Some sw2
          \<and> sw_trace sw2 = [GaugeSet ([], ''orders'', 0) 5, ClaimCall (ex_record 2 ''c'')])
   \<and> sint (7 - Offset (ex_record 2 ''c'')) = 5"
proof -
  let ?r = "ex_record 2 ''c''"
  let ?pre = "[(ex_record 0 ''a'', 3), (ex_record 1 ''b'', 3)] :: (ConsumerMessage \<times> 64 word) list"
  let ?es = "[GaugeSet (''grp'', ''orders'', 0) 3, ClaimCall (ex_record 0 ''a''), SendMsg ''a'',
              GaugeSet (''grp'', ''orders'', 0) 2, ClaimCall (ex_record 1 ''b''), SendMsg ''b'']"
  note t = lag_gauge_set_before_decode
             [where c = ex_consumer and CM = ex_ClaimMessage and pre = ?pre and es = ?es
                and r = ?r and h = 7 and post = "[]" and sw = ex_simple_consuming and i = 1
                and g = "''grp''"]
  have p: "ConsumeClaim ex_consumer ex_ClaimMessage ?pre = (?es, None)"
    by (simp add: ConsumeClaim_def ex_consumer_def new_consumer_def ex_Factory_def
          ex_ClaimMessage_def ex_record_def TopicPartitionOffsetDiffGaugeSet_def)
  have rf: "Topic ?r = ''orders''" "Partition ?r = 0" "7 - Offset ?r = 5"
    "group ex_consumer = ''grp''"
    by (simp_all add: ex_record_def ex_consumer_def new_consumer_def ex_Factory_def)
  have full: "ConsumeClaim ex_consumer ex_ClaimMessage ex_claim
     = (?es @ [GaugeSet (''grp'', ''orders'', 0) 5, ClaimCall ?r, SendMsg ''c''], None)"
    by (simp add: ConsumeClaim_def ex_claim_def ex_consumer_def new_consumer_def ex_Factory_def
          ex_ClaimMessage_def ex_record_def TopicPartitionOffsetDiffGaugeSet_def)
  from t p have "\<exists>es'. fst (ConsumeClaim ex_consumer ex_ClaimMessage (?pre @ (?r, 7) # []))
              = ?es @ GaugeSet (group ex_consumer, Topic ?r, Partition ?r) (7 - Offset ?r)
                  # ClaimCall ?r # es'"
    by blast
  have g1: "fst (ConsumeClaim ex_consumer ex_ClaimMessage ex_claim)
     = [GaugeSet (''grp'', ''orders'', 0) 3, ClaimCall (ex_record 0 ''a''), SendMsg ''a'',
        GaugeSet (''grp'', ''orders'', 0) 2, ClaimCall (ex_record 1 ''b''), SendMsg ''b'',
        GaugeSet (''grp'', ''orders'', 0) 5, ClaimCall ?r, SendMsg ''c'']"
    by (simp add: full)
  have pu: "pump_at ex_simple_consuming 1 = Some (Running PSelect)"
    by (simp add: ex_simple_consuming_eq pump_at_def)
  have sd: "sw_decodes ex_simple_consuming = []" and st: "sw_trace ex_simple_consuming = []"
    by (simp_all add: ex_simple_consuming_eq)
  from t pu have "\<exists>sw1 sw2. simple_step ex_ClaimMessage (PumpMessage 1 ?r 7) ex_simple_consuming
                    = Some sw1
            \<and> sw_trace sw1 = sw_trace ex_simple_consuming
                 @ [GaugeSet ([], Topic ?r, Partition ?r) (7 - Offset ?r)]
            \<and> sw_decodes sw1 = sw_decodes ex_simple_consuming @ [Running (DClaim ?r)]
            \<and> simple_step ex_ClaimMessage (DecodeRun (length (sw_decodes ex_simple_consuming))) sw1
                = Some sw2
            \<and> sw_trace sw2 = sw_trace sw1 @ [ClaimCall ?r]"
    by blast
  then obtain sw1 sw2 where
    a: "simple_step ex_ClaimMessage (PumpMessage 1 ?r 7) ex_simple_consuming = Some sw1"
    and b: "sw_trace sw1 = [GaugeSet ([], ''orders'', 0) 5]"
    and c: "sw_decodes sw1 = [Running (DClaim ?r)]"
    and d: "simple_step ex_ClaimMessage (DecodeRun 0) sw1 = Some sw2"
    and e: "sw_trace sw2 = sw_trace sw1 @ [ClaimCall ?r]"
    by (metis sd st rf(1) rf(2) rf(3) append_Nil list.size(3))
  from b e have e': "sw_trace sw2 = [GaugeSet ([], ''orders'', 0) 5, ClaimCall ?r]" by simp
  have "0 \<le> sint (Offset ?r) \<and> 0 \<le> sint (7 :: 64 word)"
    by (simp add: ex_record_def)
  with t have "\<exists>v. (TopicPartitionOffsetDiffGaugeSet ''grp'' (Topic ?r) (Partition ?r) 7 (Offset ?r)
                      :: string event)
                = GaugeSet (''grp'', Topic ?r, Partition ?r) v
            \<and> sint v = sint (7 :: 64 word) - sint (Offset ?r)"
    by blast
  then have g3: "sint (7 - Offset ?r) = 5"
    by (simp add: TopicPartitionOffsetDiffGaugeSet_def ex_record_def)
  from g1 a b c d e' g3 show ?thesis by blast
qed

section \<open>Default buffer capacity\<close>

text \<open>
  C10. When no option changes the buffer, the consumer Create builds has buffer
  capacity 0 in group mode (both packages) and 1000 in simple mode. Whenever Consume
  returns queues, the capacity of both is the configured buffer, and Consume does
  return them when the client (in simple mode: at least one partition reader) is
  obtained and the buffer is not negative.
\<close>

theorem default_Buffer_is_queue_capacity:
  "((\<forall>o'\<in>set (f_oo f). \<forall>c c'. opt_run o' c = Inr c'
         \<longrightarrow> Buffer (consumerCnf c') = Buffer (consumerCnf c))
      \<and> Create SC f = Inr c
    \<longrightarrow> Buffer (consumerCnf c) = 0)
   \<and> ((\<forall>o'\<in>set (f2_oo f2). \<forall>c c'. opt_run o' c = Inr c' \<longrightarrow> Buffer c' = Buffer c)
      \<and> Create2 SC f2 = Inr c2
    \<longrightarrow> Buffer (config2 c2) = 0)
   \<and> ((\<forall>o'\<in>set (sf_oo f3). \<forall>c c'. opt_run o' c = Inr c'
         \<longrightarrow> Buffer (s_consumerCnf c') = Buffer (s_consumerCnf c))
      \<and> simple_Create SC f3 = Inr c3
    \<longrightarrow> Buffer (s_consumerCnf c3) = 1000)
   \<and> (Consume NCG w = Return ((Some chMsg, Some chErr, err), w')
    \<longrightarrow> cap chMsg = Buffer (consumerCnf (gw_c w)) \<and> cap chErr = Buffer (consumerCnf (gw_c w)))
   \<and> (NCG (Brokers (consumerCnf (gw_c w))) (group (gw_c w)) (saramaCnf (gw_c w)) = Inr h
      \<and> 0 \<le> Buffer (consumerCnf (gw_c w))
    \<longrightarrow> (\<exists>w1. Consume NCG w
              = Return ((Some \<lparr>cap = Buffer (consumerCnf (gw_c w))\<rparr>,
                         Some \<lparr>cap = Buffer (consumerCnf (gw_c w))\<rparr>, None), w1)))
   \<and> (simple_Consume NC P CP sw = Return ((Some schMsg, Some schErr, serr), sw')
    \<longrightarrow> cap schMsg = Buffer (s_consumerCnf (sw_c sw))
        \<and> cap schErr = Buffer (s_consumerCnf (sw_c sw)))
   \<and> (partitions NC P CP ((sw_c sw)\<lparr>s_cnl := True\<rparr>) = (sc', Inr pcs) \<and> pcs \<noteq> []
      \<and> 0 \<le> Buffer (s_consumerCnf (sw_c sw))
    \<longrightarrow> (\<exists>sw1. simple_Consume NC P CP sw
              = Return ((Some \<lparr>cap = Buffer (s_consumerCnf (sw_c sw))\<rparr>,
                         Some \<lparr>cap = Buffer (s_consumerCnf (sw_c sw))\<rparr>, None), sw1)))"
proof (intro conjI impI)
  assume "(\<forall>o'\<in>set (f_oo f). \<forall>c c'. opt_run o' c = Inr c'
         \<longrightarrow> Buffer (consumerCnf c') = Buffer (consumerCnf c)) \<and> Create SC f = Inr c"
  then show "Buffer (consumerCnf c) = 0"
    using Create_default_Buffer [of f SC c] by blast
next
  assume "(\<forall>o'\<in>set (f2_oo f2). \<forall>c c'. opt_run o' c = Inr c' \<longrightarrow> Buffer c' = Buffer c)
      \<and> Create2 SC f2 = Inr c2"
  then show "Buffer (config2 c2) = 0"
    using Create2_default_Buffer [of f2 SC c2] by blast
next
  assume "(\<forall>o'\<in>set (sf_oo f3). \<forall>c c'. opt_run o' c = Inr c'
         \<longrightarrow> Buffer (s_consumerCnf c') = Buffer (s_consumerCnf c))
      \<and> simple_Create SC f3 = Inr c3"
  then show "Buffer (s_consumerCnf c3) = 1000"
    using simple_Create_default_Buffer [of f3 SC c3] by blast
next
  assume a: "Consume NCG w = Return ((Some chMsg, Some chErr, err), w')"
  from Consume_queue_capacity [OF a]
  show "cap chMsg = Buffer (consumerCnf (gw_c w))" and "cap chErr = Buffer (consumerCnf (gw_c w))"
    by simp_all
next
  assume "NCG (Brokers (consumerCnf (gw_c w))) (group (gw_c w)) (saramaCnf (gw_c w)) = Inr h
      \<and> 0 \<le> Buffer (consumerCnf (gw_c w))"
  then show "\<exists>w1. Consume NCG w
              = Return ((Some \<lparr>cap = Buffer (consumerCnf (gw_c w))\<rparr>,
                         Some \<lparr>cap = Buffer (consumerCnf (gw_c w))\<rparr>, None), w1)"
    using Consume_returns_queues [of NCG w h] by blast
next
  assume a: "simple_Consume NC P CP sw = Return ((Some schMsg, Some schErr, serr), sw')"
  from simple_Consume_queue_capacity [OF a]
  show "cap schMsg = Buffer (s_consumerCnf (sw_c sw))"
    and "cap schErr = Buffer (s_consumerCnf (sw_c sw))"
    by simp_all
next
  assume "partitions NC P CP ((sw_c sw)\<lparr>s_cnl := True\<rparr>) = (sc', Inr pcs) \<and> pcs \<noteq> []
      \<and> 0 \<le> Buffer (s_consumerCnf (sw_c sw))"
  then show "\<exists>sw1. simple_Consume NC P CP sw
              = Return ((Some \<lparr>cap = Buffer (s_consumerCnf (sw_c sw))\<rparr>,
                         Some \<lparr>cap = Buffer (s_consumerCnf (sw_c sw))\<rparr>, None), sw1)"
    using simple_Consume_returns_queues [of NC P CP sw sc' pcs] by blast
qed

theorem default_Buffer_is_queue_capacity_witness:
  "Create (\<lambda>n. Inr ()) (ex_Factory\<lparr>f_oo := [opt_ok ''first'']\<rparr>) = Inr ex_consumer
   \<and> Buffer (consumerCnf ex_consumer) = 0
   \<and> (\<exists>w1. Consume (\<lambda>bs g cnf. Inr ())
              (created ex_consumer :: ((unit, unit, unit) consumer, unit, string) group_world)
            = Return ((Some \<lparr>cap = 0\<rparr>, Some \<lparr>cap = 0\<rparr>, None), w1))
   \<and> simple_Create (\<lambda>n. Inr ()) (ex_simple_Factory\<lparr>sf_oo := [opt_ok ''first'']\<rparr>)
       = Inr ex_simple_consumer
   \<and> Buffer (s_consumerCnf ex_simple_consumer) = 1000
   \<and> (\<exists>sw1. simple_Consume (\<lambda>bs cnf. Inr ()) (\<lambda>ms' t. Inr [0, 1]) (\<lambda>ms' t p cnf. Inr (unat p))
              (simple_created ex_simple_consumer
                 :: ((unit, unit, unit) simple_consumer, nat, string) simple_world)
            = Return ((Some \<lparr>cap = 1000\<rparr>, Some \<lparr>cap = 1000\<rparr>, None), sw1))"
proof -
  let ?f = "ex_Factory\<lparr>f_oo := [opt_ok ''first'']\<rparr>"
  let ?f3 = "ex_simple_Factory\<lparr>sf_oo := [opt_ok ''first'']\<rparr>"
  let ?w = "created ex_consumer :: ((unit, unit, unit) consumer, unit, string) group_world"
  let ?sw = "simple_created ex_simple_consumer
               :: ((unit, unit, unit) simple_consumer, nat, string) simple_world"
  let ?NCG = "\<lambda>(bs :: string list) (g :: string) (cnf :: unit). (Inr () :: error + unit)"
  let ?NC = "\<lambda>(bs :: string list) (cnf :: unit). (Inr () :: error + unit)"
  let ?P = "\<lambda>(ms' :: unit) (t :: string). (Inr [0, 1] :: error + 32 word list)"
  let ?CP = "\<lambda>(ms' :: unit) (t :: string) (p :: 32 word) (cnf :: unit). (Inr (unat p) :: error + nat)"
  have cr: "Create (\<lambda>n. Inr ()) ?f = Inr ex_consumer"
    by (simp add: Create_def Create_calls_def ex_Factory_def ex_consumer_def new_consumer_def
          opt_ok_def)
  have pr: "\<forall>o'\<in>set (f_oo ?f). \<forall>c c'. opt_run o' c = Inr c'
              \<longrightarrow> Buffer (consumerCnf c') = Buffer (consumerCnf c)"
    by (simp add: opt_ok_def)
  have scr: "simple_Create (\<lambda>n. Inr ()) ?f3 = Inr ex_simple_consumer"
    by (simp add: simple_Create_def simple_Create_calls_def ex_simple_Factory_def
          ex_simple_consumer_def simple_new_consumer_def opt_ok_def)
  have spr: "\<forall>o'\<in>set (sf_oo ?f3). \<forall>c c'. opt_run o' c = Inr c'
              \<longrightarrow> Buffer (s_consumerCnf c') = Buffer (s_consumerCnf c)"
    by (simp add: opt_ok_def)
  have pa: "partitions ?NC ?P ?CP ((sw_c ?sw)\<lparr>s_cnl := True\<rparr>)
              = (ex_simple_consumer\<lparr>s_cnl := True, s_ms := Some ()\<rparr>, Inr [0, 1])"
    by (simp add: partitions_def simple_created_def Let_def)
  note t = default_Buffer_is_queue_capacity
             [where f = ?f and SC = "\<lambda>n. Inr ()" and c = ex_consumer
                and ?f3.0 = ?f3 and ?c3.0 = ex_simple_consumer
                and NCG = ?NCG and w = ?w and h = "()"
                and NC = ?NC and P = ?P and CP = ?CP and sw = ?sw
                and sc' = "ex_simple_consumer\<lparr>s_cnl := True, s_ms := Some ()\<rparr>"
                and pcs = "[0, 1]"]
  from t cr pr have b: "Buffer (consumerCnf ex_consumer) = 0" by blast
  from t scr spr have sb: "Buffer (s_consumerCnf ex_simple_consumer) = 1000" by blast
  have "?NCG (Brokers (consumerCnf (gw_c ?w))) (group (gw_c ?w)) (saramaCnf (gw_c ?w)) = Inr ()
          \<and> 0 \<le> Buffer (consumerCnf (gw_c ?w))"
    using b by (simp add: created_def)
  with t have "\<exists>w1. Consume ?NCG ?w
                 = Return ((Some \<lparr>cap = Buffer (consumerCnf (gw_c ?w))\<rparr>,
                            Some \<lparr>cap = Buffer (consumerCnf (gw_c ?w))\<rparr>, None), w1)"
    by blast
  then have q: "\<exists>w1. Consume ?NCG ?w = Return ((Some \<lparr>cap = 0\<rparr>, Some \<lparr>cap = 0\<rparr>, None), w1)"
    using b by (simp add: created_def)
  have "partitions ?NC ?P ?CP ((sw_c ?sw)\<lparr>s_cnl := True\<rparr>)
              = (ex_simple_consumer\<lparr>s_cnl := True, s_ms := Some ()\<rparr>, Inr [0, 1])
        \<and> [0, 1 :: nat] \<noteq> [] \<and> 0 \<le> Buffer (s_consumerCnf (sw_c ?sw))"
    using pa sb by (simp add: simple_created_def)
  with t have "\<exists>sw1. simple_Consume ?NC ?P ?CP ?sw
                 = Return ((Some \<lparr>cap = Buffer (s_consumerCnf (sw_c ?sw))\<rparr>,
                            Some \<lparr>cap = Buffer (s_consumerCnf (sw_c ?sw))\<rparr>, None), sw1)"
    by blast
  then have sq: "\<exists>sw1. simple_Consume ?NC ?P ?CP ?sw
                   = Return ((Some \<lparr>cap = 1000\<rparr>, Some \<lparr>cap = 1000\<rparr>, None), sw1)"
    using sb by (simp add: simple_created_def)
  from cr b q scr sb sq show ?thesis by blast
qed

end
